theory Spec2Isabelle
  imports Main
begin

section \<open>Common model of the Go runtime seen by both programs\<close>

text \<open>
  A Go \<open>error\<close> value is modelled by its message. A pointer that may be nil (\<open>*string\<close>,
  \<open>*time.Time\<close>, \<open>*int64\<close>) is an \<open>option\<close>; dereferencing \<open>None\<close> is
  a panic of the process, written out in every function that dereferences.
\<close>

datatype error = Error (message: string)

text \<open>
  How a piece of code ends: it returns a value, the process exits with a status
  (\<open>log.Fatalf\<close> is \<open>os.Exit(1)\<close> after printing), or the process panics.
\<close>

datatype 'a outcome = Return 'a | Exit nat | Panic string

definition nilDeref :: string where
  "nilDeref = ''runtime error: invalid memory address or nil pointer dereference''"

text \<open>The status the operating system sees when \<open>main\<close> ends.\<close>

fun exitCode :: "unit outcome \<Rightarrow> nat" where
  "exitCode (Return _) = 0"
| "exitCode (Exit n) = n"
| "exitCode (Panic _) = 2"

text \<open>
  An instant (\<open>time.Time\<close>) is the number of nanoseconds since the Unix epoch. The
  rendering of an instant is the standard library's and is a parameter of the model:
  \<open>Format t layout\<close> for \<open>t.Format(layout)\<close>, \<open>String t\<close> for \<open>t.String()\<close>.
\<close>

type_synonym Time = int

definition RFC3339 :: string where
  "RFC3339 = ''2006-01-02T15:04:05Z07:00''"

text \<open>
  The world a program runs in: the state of the remote services (of whatever type the
  backend needs), the entries written through package \<open>log\<close> (one string per call,
  without the date prefix the logger adds) and the bytes written to standard output.
\<close>

record 's world =
  backend :: 's
  logged :: "string list"
  stdout :: string

definition logPrintf :: "string \<Rightarrow> 's world \<Rightarrow> 's world" where
  "logPrintf line w = w\<lparr>logged := logged w @ [line]\<rparr>"

definition logFatalf :: "string \<Rightarrow> 's world \<Rightarrow> 'a outcome \<times> 's world" where
  "logFatalf line w = (Exit 1, logPrintf line w)"

definition Getenv :: "(string \<rightharpoonup> string) \<Rightarrow> string \<Rightarrow> string" where
  "Getenv env name = (case env name of None \<Rightarrow> [] | Some v \<Rightarrow> v)"

section \<open>The stack scanner (cmd/scan-stacks/main.go)\<close>

subsection \<open>The SDK types the scanner reads\<close>

text \<open>
  \<open>cfTypes.StackStatus\<close>, the enumeration of the CloudFormation SDK package
  (\<open>service/cloudformation/types\<close>, external to the repository). main.go names 22 of
  its constants, one of them in a comment; the 23rd, for
  \<open>UPDATE_COMPLETE_CLEANUP_IN_PROGRESS\<close>, is declared by the SDK next to the others.
\<close>

datatype StackStatus =
    StackStatusCreateInProgress
  | StackStatusCreateFailed
  | StackStatusCreateComplete
  | StackStatusRollbackInProgress
  | StackStatusRollbackFailed
  | StackStatusRollbackComplete
  | StackStatusDeleteInProgress
  | StackStatusDeleteFailed
  | StackStatusDeleteComplete
  | StackStatusUpdateInProgress
  | StackStatusUpdateCompleteCleanupInProgress
  | StackStatusUpdateComplete
  | StackStatusUpdateFailed
  | StackStatusUpdateRollbackInProgress
  | StackStatusUpdateRollbackFailed
  | StackStatusUpdateRollbackCompleteCleanupInProgress
  | StackStatusUpdateRollbackComplete
  | StackStatusReviewInProgress
  | StackStatusImportInProgress
  | StackStatusImportComplete
  | StackStatusImportRollbackInProgress
  | StackStatusImportRollbackFailed
  | StackStatusImportRollbackComplete

text \<open>The string behind each constant, which is what \<open>%s\<close> prints.\<close>

fun StackStatus_string :: "StackStatus \<Rightarrow> string" where
  "StackStatus_string StackStatusCreateInProgress = ''CREATE_IN_PROGRESS''"
| "StackStatus_string StackStatusCreateFailed = ''CREATE_FAILED''"
| "StackStatus_string StackStatusCreateComplete = ''CREATE_COMPLETE''"
| "StackStatus_string StackStatusRollbackInProgress = ''ROLLBACK_IN_PROGRESS''"
| "StackStatus_string StackStatusRollbackFailed = ''ROLLBACK_FAILED''"
| "StackStatus_string StackStatusRollbackComplete = ''ROLLBACK_COMPLETE''"
| "StackStatus_string StackStatusDeleteInProgress = ''DELETE_IN_PROGRESS''"
| "StackStatus_string StackStatusDeleteFailed = ''DELETE_FAILED''"
| "StackStatus_string StackStatusDeleteComplete = ''DELETE_COMPLETE''"
| "StackStatus_string StackStatusUpdateInProgress = ''UPDATE_IN_PROGRESS''"
| "StackStatus_string StackStatusUpdateCompleteCleanupInProgress =
     ''UPDATE_COMPLETE_CLEANUP_IN_PROGRESS''"
| "StackStatus_string StackStatusUpdateComplete = ''UPDATE_COMPLETE''"
| "StackStatus_string StackStatusUpdateFailed = ''UPDATE_FAILED''"
| "StackStatus_string StackStatusUpdateRollbackInProgress = ''UPDATE_ROLLBACK_IN_PROGRESS''"
| "StackStatus_string StackStatusUpdateRollbackFailed = ''UPDATE_ROLLBACK_FAILED''"
| "StackStatus_string StackStatusUpdateRollbackCompleteCleanupInProgress =
     ''UPDATE_ROLLBACK_COMPLETE_CLEANUP_IN_PROGRESS''"
| "StackStatus_string StackStatusUpdateRollbackComplete = ''UPDATE_ROLLBACK_COMPLETE''"
| "StackStatus_string StackStatusReviewInProgress = ''REVIEW_IN_PROGRESS''"
| "StackStatus_string StackStatusImportInProgress = ''IMPORT_IN_PROGRESS''"
| "StackStatus_string StackStatusImportComplete = ''IMPORT_COMPLETE''"
| "StackStatus_string StackStatusImportRollbackInProgress = ''IMPORT_ROLLBACK_IN_PROGRESS''"
| "StackStatus_string StackStatusImportRollbackFailed = ''IMPORT_ROLLBACK_FAILED''"
| "StackStatus_string StackStatusImportRollbackComplete = ''IMPORT_ROLLBACK_COMPLETE''"

text \<open>\<open>aws.Config\<close>: of its fields only the region decides where a request goes.\<close>

record Config =
  Region :: string

record GetCallerIdentityOutput =
  Account :: "string option"
  Arn :: "string option"
  UserId :: "string option"

record Region =
  RegionName :: "string option"

record StackSummary =
  StackId :: "string option"
  StackName :: "string option"
  StackStatus :: StackStatus
  StackStatusReason :: "string option"
  ParentId :: "string option"
  RootId :: "string option"
  CreationTime :: "Time option"
  LastUpdatedTime :: "Time option"
  DeletionTime :: "Time option"

text \<open>\<open>ResourceStatus\<close> is a string type of the SDK; the scanner only prints it.\<close>

record StackResourceSummary =
  PhysicalResourceId :: "string option"
  LogicalResourceId :: "string option"
  ResourceType :: "string option"
  ResourceStatus :: string
  ResourceStatusReason :: "string option"
  LastUpdatedTimestamp :: "Time option"

text \<open>
  Requests and responses of the two paginated operations. Go names the token field
  \<open>NextToken\<close> in all four structs; the prefixes keep the four selectors apart.
\<close>

record ListStacksInput =
  LSI_NextToken :: "string option"
  LSI_StackStatusFilter :: "StackStatus list"

record ListStacksOutput =
  LSO_StackSummaries :: "StackSummary list"
  LSO_NextToken :: "string option"

record ListStackResourcesInput =
  LRI_StackName :: "string option"
  LRI_NextToken :: "string option"

record ListStackResourcesOutput =
  LRO_StackResourceSummaries :: "StackResourceSummary list"
  LRO_NextToken :: "string option"

text \<open>
  The remote services as the scanner calls them. Every operation reads and changes the
  backend state and answers with an error or a response. A client is built from a
  \<open>Config\<close> (\<open>NewFromConfig(cfg)\<close>), so each operation takes the \<open>Config\<close> of its
  client. \<open>DescribeRegions\<close> takes the \<open>AllRegions\<close> flag of its input.
\<close>

record 's CloudAPI =
  LoadDefaultConfig :: "'s \<Rightarrow> (error + Config) \<times> 's"
  GetCallerIdentity :: "Config \<Rightarrow> 's \<Rightarrow> (error + GetCallerIdentityOutput) \<times> 's"
  DescribeRegions :: "Config \<Rightarrow> bool \<Rightarrow> 's \<Rightarrow> (error + Region list) \<times> 's"
  ListStacks :: "Config \<Rightarrow> ListStacksInput \<Rightarrow> 's \<Rightarrow> (error + ListStacksOutput) \<times> 's"
  ListStackResources ::
    "Config \<Rightarrow> ListStackResourcesInput \<Rightarrow> 's \<Rightarrow> (error + ListStackResourcesOutput) \<times> 's"

subsection \<open>The functions of main.go\<close>

definition getCallerIdentity ::
  "'s CloudAPI \<Rightarrow> Config \<Rightarrow> 's world \<Rightarrow> (error + GetCallerIdentityOutput) outcome \<times> 's world"
where
  "getCallerIdentity api cfg w =
     (case GetCallerIdentity api cfg (backend w) of
        (Inl err, s) \<Rightarrow>
          logFatalf (''Unable to get caller identity: '' @ message err) (w\<lparr>backend := s\<rparr>)
      | (Inr output, s) \<Rightarrow> (Return (Inr output), w\<lparr>backend := s\<rparr>))"

definition getAWSRegions ::
  "'s CloudAPI \<Rightarrow> Config \<Rightarrow> bool \<Rightarrow> 's world \<Rightarrow> (error + Region list) outcome \<times> 's world"
where
  "getAWSRegions api cfg allRegions w =
     (case DescribeRegions api cfg allRegions (backend w) of
        (Inl err, s) \<Rightarrow>
          logFatalf (''Unable to DescribeRegions: '' @ message err) (w\<lparr>backend := s\<rparr>)
      | (Inr regions, s) \<Rightarrow> (Return (Inr regions), w\<lparr>backend := s\<rparr>))"

text \<open>The composite literal of lines 59-92: the request of one page.\<close>

definition stackStatusFilter :: "StackStatus list" where
  "stackStatusFilter =
     [StackStatusCreateInProgress, StackStatusCreateFailed, StackStatusCreateComplete,
      StackStatusRollbackInProgress, StackStatusRollbackFailed, StackStatusRollbackComplete,
      StackStatusDeleteInProgress, StackStatusDeleteFailed,
      StackStatusUpdateInProgress, StackStatusUpdateFailed, StackStatusUpdateComplete,
      StackStatusUpdateRollbackInProgress, StackStatusUpdateRollbackFailed,
      StackStatusUpdateRollbackCompleteCleanupInProgress, StackStatusUpdateRollbackComplete,
      StackStatusReviewInProgress,
      StackStatusImportInProgress, StackStatusImportComplete,
      StackStatusImportRollbackInProgress, StackStatusImportRollbackFailed,
      StackStatusImportRollbackComplete]"

definition listStacksInput :: "string option \<Rightarrow> ListStacksInput" where
  "listStacksInput nextToken =
     \<lparr>LSI_NextToken = nextToken, LSI_StackStatusFilter = stackStatusFilter\<rparr>"

definition listStackResourcesInput :: "string \<Rightarrow> string option \<Rightarrow> ListStackResourcesInput" where
  "listStackResourcesInput stackID nextToken =
     \<lparr>LRI_StackName = Some stackID, LRI_NextToken = nextToken\<rparr>"

text \<open>
  The \<open>for\<close> loop of \<open>cloudFormationListStacks\<close> (lines 58-110), with its two
  variables as arguments. The loop has no bound of its own: a backend that always
  answers with a token keeps it running, and then the function has no result (\<open>None\<close>).
  After \<open>log.Fatalf\<close> the \<open>return nil, err\<close> of line 97 is never reached.
\<close>

partial_function (option) listStacks_loop ::
  "'s CloudAPI \<Rightarrow> Config \<Rightarrow> string option \<Rightarrow> StackSummary list \<Rightarrow> 's world
     \<Rightarrow> ((error + StackSummary list) outcome \<times> 's world) option"
where
  "listStacks_loop api cfg nextToken allStacks w =
     (case ListStacks api cfg (listStacksInput nextToken) (backend w) of
        (Inl err, s) \<Rightarrow>
          Some (logFatalf (''Unable to ListStacks: '' @ message err) (w\<lparr>backend := s\<rparr>))
      | (Inr output, s) \<Rightarrow>
          (case LSO_NextToken output of
             None \<Rightarrow> Some (Return (Inr (allStacks @ LSO_StackSummaries output)), w\<lparr>backend := s\<rparr>)
           | Some t \<Rightarrow>
               listStacks_loop api cfg (Some t) (allStacks @ LSO_StackSummaries output)
                 (w\<lparr>backend := s\<rparr>)))"

declare listStacks_loop.simps [code]

definition cloudFormationListStacks ::
  "'s CloudAPI \<Rightarrow> Config \<Rightarrow> 's world \<Rightarrow> ((error + StackSummary list) outcome \<times> 's world) option"
where
  "cloudFormationListStacks api cfg w = listStacks_loop api cfg None [] w"

partial_function (option) listStackResources_loop ::
  "'s CloudAPI \<Rightarrow> Config \<Rightarrow> string \<Rightarrow> string option \<Rightarrow> StackResourceSummary list \<Rightarrow> 's world
     \<Rightarrow> ((error + StackResourceSummary list) outcome \<times> 's world) option"
where
  "listStackResources_loop api cfg stackID nextToken allStackResources w =
     (case ListStackResources api cfg (listStackResourcesInput stackID nextToken) (backend w) of
        (Inl err, s) \<Rightarrow>
          Some (logFatalf (''Unable to ListStacks: '' @ message err) (w\<lparr>backend := s\<rparr>))
      | (Inr output, s) \<Rightarrow>
          (case LRO_NextToken output of
             None \<Rightarrow>
               Some (Return (Inr (allStackResources @ LRO_StackResourceSummaries output)),
                     w\<lparr>backend := s\<rparr>)
           | Some t \<Rightarrow>
               listStackResources_loop api cfg stackID (Some t)
                 (allStackResources @ LRO_StackResourceSummaries output) (w\<lparr>backend := s\<rparr>)))"

declare listStackResources_loop.simps [code]

definition cloudFormationListStackResources ::
  "'s CloudAPI \<Rightarrow> Config \<Rightarrow> string \<Rightarrow> 's world
     \<Rightarrow> ((error + StackResourceSummary list) outcome \<times> 's world) option"
where
  "cloudFormationListStackResources api cfg stackID w =
     listStackResources_loop api cfg stackID None [] w"

definition NilSafeString :: "string option \<Rightarrow> string" where
  "NilSafeString s = (case s of None \<Rightarrow> ''<nil>'' | Some v \<Rightarrow> v)"

definition NilSafeTime :: "(Time \<Rightarrow> string \<Rightarrow> string) \<Rightarrow> Time option \<Rightarrow> string \<Rightarrow> string" where
  "NilSafeTime Format tmp fmt =
     (case tmp of
        None \<Rightarrow> ''<nil>''
      | Some t \<Rightarrow> Format t (if fmt = [] then RFC3339 else fmt))"

definition verbose :: bool where
  "verbose = True"

text \<open>The three banner lines of lines 171-176; each argument is dereferenced unguarded.\<close>

definition printIdentity :: "GetCallerIdentityOutput \<Rightarrow> 's world \<Rightarrow> unit outcome \<times> 's world" where
  "printIdentity identity w =
     (case Account identity of
        None \<Rightarrow> (Panic nilDeref, w)
      | Some account \<Rightarrow>
          (case UserId identity of
             None \<Rightarrow> (Panic nilDeref, logPrintf (''AWS Account ID: '' @ account) w)
           | Some userId \<Rightarrow>
               (case Arn identity of
                  None \<Rightarrow>
                    (Panic nilDeref,
                     logPrintf (''AWS User ID: '' @ userId)
                       (logPrintf (''AWS Account ID: '' @ account) w))
                | Some arn \<Rightarrow>
                    (Return (),
                     logPrintf []
                       (logPrintf (''AWS ARN: '' @ arn)
                         (logPrintf (''AWS User ID: '' @ userId)
                           (logPrintf (''AWS Account ID: '' @ account) w)))))))"

text \<open>The loop of lines 186-194 over the regions \<open>DescribeRegions\<close> returned.\<close>

fun addRegions :: "Region list \<Rightarrow> string list \<Rightarrow> 's world \<Rightarrow> string list \<times> 's world" where
  "addRegions [] allRegionNames w = (allRegionNames, w)"
| "addRegions (region # regions) allRegionNames w =
     (case RegionName region of
        None \<Rightarrow> addRegions regions allRegionNames w
      | Some name \<Rightarrow>
          addRegions regions (allRegionNames @ [name])
            (if verbose then logPrintf (''Adding region '' @ [CHR 0x27] @ name @ [CHR 0x27]) w
             else w))"

text \<open>\<open>%v\<close> of a \<open>[]string\<close>: the elements between brackets, separated by one space.\<close>

fun joinSpace :: "string list \<Rightarrow> string" where
  "joinSpace [] = []"
| "joinSpace [x] = x"
| "joinSpace (x # y # ys) = x @ '' '' @ joinSpace (y # ys)"

definition formatStrings :: "string list \<Rightarrow> string" where
  "formatStrings xs = ''['' @ joinSpace xs @ '']''"

text \<open>The nine log lines of one stack (lines 211-220).\<close>

definition stackLines :: "(Time \<Rightarrow> string \<Rightarrow> string) \<Rightarrow> StackSummary \<Rightarrow> string list" where
  "stackLines Format stack =
     [''- Stack:'',
      ''  - Id: '' @ NilSafeString (StackId stack),
      ''  - Name: '' @ NilSafeString (StackName stack),
      ''  - Status: '' @ StackStatus_string (StackStatus stack),
      ''  - Status Reason: '' @ NilSafeString (StackStatusReason stack),
      ''  - Parent Id: '' @ NilSafeString (ParentId stack),
      ''  - Root Id: '' @ NilSafeString (RootId stack),
      ''  - Creation Time: '' @ NilSafeTime Format (CreationTime stack) [],
      ''  - Last Updated Time: '' @ NilSafeTime Format (LastUpdatedTime stack) [],
      ''  - Deletion Time: '' @ NilSafeTime Format (DeletionTime stack) []]"

definition printStack :: "(Time \<Rightarrow> string \<Rightarrow> string) \<Rightarrow> StackSummary \<Rightarrow> 's world \<Rightarrow> 's world" where
  "printStack Format stack w = (if verbose then fold logPrintf (stackLines Format stack) w else w)"

text \<open>The seven log lines of one resource (lines 231-237).\<close>

definition stackResourceLines ::
  "(Time \<Rightarrow> string \<Rightarrow> string) \<Rightarrow> StackResourceSummary \<Rightarrow> string list"
where
  "stackResourceLines Format stackResource =
     [''  - Stack Resource:'',
      ''     - Physical Resource Id: '' @ NilSafeString (PhysicalResourceId stackResource),
      ''     - Logical Resource Id: '' @ NilSafeString (LogicalResourceId stackResource),
      ''     - Resource Type: '' @ NilSafeString (ResourceType stackResource),
      ''     - Status: '' @ ResourceStatus stackResource,
      ''     - Status Reason: '' @ NilSafeString (ResourceStatusReason stackResource),
      ''     - Last Updated Time: '' @ NilSafeTime Format (LastUpdatedTimestamp stackResource) []]"

definition printStackResource ::
  "(Time \<Rightarrow> string \<Rightarrow> string) \<Rightarrow> StackResourceSummary \<Rightarrow> 's world \<Rightarrow> 's world"
where
  "printStackResource Format stackResource w =
     (if verbose then fold logPrintf (stackResourceLines Format stackResource) w else w)"

text \<open>
  The loop over the stacks of one region (lines 209-240). Line 223 dereferences
  \<open>stack.StackId\<close> to pass it on. The branch for a returned error is that of lines
  224-227: one log line, then the next stack.
\<close>

fun scanStacks ::
  "'s CloudAPI \<Rightarrow> (Time \<Rightarrow> string \<Rightarrow> string) \<Rightarrow> Config \<Rightarrow> StackSummary list \<Rightarrow> 's world
     \<Rightarrow> (unit outcome \<times> 's world) option"
where
  "scanStacks api Format cfg [] w = Some (Return (), w)"
| "scanStacks api Format cfg (stack # stacks) w =
     (case StackId stack of
        None \<Rightarrow> Some (Panic nilDeref, printStack Format stack w)
      | Some stackID \<Rightarrow>
          (case cloudFormationListStackResources api cfg stackID (printStack Format stack w) of
             None \<Rightarrow> None
           | Some (Exit c, w1) \<Rightarrow> Some (Exit c, w1)
           | Some (Panic m, w1) \<Rightarrow> Some (Panic m, w1)
           | Some (Return (Inl srerr), w1) \<Rightarrow>
               scanStacks api Format cfg stacks
                 (logPrintf
                    (''Error calling cloudFormationListStackResources: '' @ message srerr) w1)
           | Some (Return (Inr stackResources), w1) \<Rightarrow>
               scanStacks api Format cfg stacks
                 (fold (printStackResource Format) stackResources w1)))"

text \<open>
  The loop over the region names (lines 200-243). The call of line 203 receives the
  context and \<open>cfg\<close>; \<open>regionName\<close> goes into the log line of line 201 only.
\<close>

fun scanRegions ::
  "'s CloudAPI \<Rightarrow> (Time \<Rightarrow> string \<Rightarrow> string) \<Rightarrow> Config \<Rightarrow> string list \<Rightarrow> 's world
     \<Rightarrow> (unit outcome \<times> 's world) option"
where
  "scanRegions api Format cfg [] w = Some (Return (), w)"
| "scanRegions api Format cfg (regionName # regionNames) w =
     (case cloudFormationListStacks api cfg (logPrintf (''- Region: '' @ regionName) w) of
        None \<Rightarrow> None
      | Some (Exit c, w1) \<Rightarrow> Some (Exit c, w1)
      | Some (Panic m, w1) \<Rightarrow> Some (Panic m, w1)
      | Some (Return (Inl serr), w1) \<Rightarrow>
          scanRegions api Format cfg regionNames
            (logPrintf (''Error calling cloudFormationListStacks: '' @ message serr) w1)
      | Some (Return (Inr stacks), w1) \<Rightarrow>
          (case scanStacks api Format cfg stacks w1 of
             None \<Rightarrow> None
           | Some (Exit c, w2) \<Rightarrow> Some (Exit c, w2)
           | Some (Panic m, w2) \<Rightarrow> Some (Panic m, w2)
           | Some (Return u, w2) \<Rightarrow> scanRegions api Format cfg regionNames (logPrintf [] w2)))"

text \<open>
  \<open>main\<close> of the scanner (lines 149-244). \<open>env\<close> is the process environment. The
  result is how the process ends, with the world it leaves; \<open>None\<close> when a pagination
  loop never ends.
\<close>

definition scanMain ::
  "'s CloudAPI \<Rightarrow> (Time \<Rightarrow> string \<Rightarrow> string) \<Rightarrow> (string \<rightharpoonup> string) \<Rightarrow> 's world
     \<Rightarrow> (unit outcome \<times> 's world) option"
where
  "scanMain api Format env w =
     (let region = (if Getenv env ''AWS_REGION'' = [] then ''us-west-2''
                    else Getenv env ''AWS_REGION'')
      in case LoadDefaultConfig api (backend w) of
        (Inl cerr, s) \<Rightarrow>
          Some (logFatalf (''Unable to load AWS configuration: '' @ message cerr)
                  (w\<lparr>backend := s\<rparr>))
      | (Inr cfg, s) \<Rightarrow>
          (case getCallerIdentity api cfg (w\<lparr>backend := s\<rparr>) of
             (Exit c, w1) \<Rightarrow> Some (Exit c, w1)
           | (Panic m, w1) \<Rightarrow> Some (Panic m, w1)
           | (Return (Inl ierr), w1) \<Rightarrow>
               Some (logFatalf (''Unable to load AWS Caller Identity: '' @ message ierr) w1)
           | (Return (Inr identity), w1) \<Rightarrow>
               (case (if verbose then printIdentity identity w1 else (Return (), w1)) of
                  (Exit c, w2) \<Rightarrow> Some (Exit c, w2)
                | (Panic m, w2) \<Rightarrow> Some (Panic m, w2)
                | (Return u, w2) \<Rightarrow>
                    (case getAWSRegions api cfg False w2 of
                       (Exit c, w3) \<Rightarrow> Some (Exit c, w3)
                     | (Panic m, w3) \<Rightarrow> Some (Panic m, w3)
                     | (Return (Inl rerr), w3) \<Rightarrow>
                         Some (logFatalf (''Unable to load AWS Regions: '' @ message rerr) w3)
                     | (Return (Inr regions), w3) \<Rightarrow>
                         (case addRegions regions [region] w3 of
                            (allRegionNames, w4) \<Rightarrow>
                              scanRegions api Format cfg allRegionNames
                                (logPrintf ''Checking each region for stacks...''
                                  (logPrintf
                                     (''All detected AWS Regions: ''
                                        @ formatStrings allRegionNames) w4)))))))"

section \<open>The task log fetcher (the second program)\<close>

subsection \<open>Time arithmetic of the standard library\<close>

definition Hour :: int where
  "Hour = 3600 * 1000000000"

definition Add :: "Time \<Rightarrow> int \<Rightarrow> Time" where
  "Add t d = t + d"

text \<open>\<open>t.Unix()\<close>: whole seconds since the epoch, rounded down.\<close>

definition Unix :: "Time \<Rightarrow> int" where
  "Unix t = t div 1000000000"

definition UnixMilli :: "int \<Rightarrow> Time" where
  "UnixMilli msec = msec * 1000000"

definition UnixTimeFactor :: int where
  "UnixTimeFactor = 1000"

subsection \<open>The SDK types the fetcher reads\<close>

record Container =
  Name :: "string option"

record Task =
  Containers :: "Container list"

record DescribeTasksInput =
  DTI_Cluster :: "string option"
  DTI_Tasks :: "string list"

record DescribeTasksOutput =
  DTO_Tasks :: "Task list"

record OutputLogEvent =
  Timestamp :: "int option"
  Message :: "string option"

record GetLogEventsInput =
  LogGroupName :: "string option"
  LogStreamName :: "string option"
  StartTime :: "int option"
  EndTime :: "int option"

record GetLogEventsOutput =
  Events :: "OutputLogEvent list"

text \<open>
  The services as the fetcher calls them. \<open>LoadDefaultConfigWithRegion region\<close> is
  \<open>config.LoadDefaultConfig(ctx, config.WithRegion(region))\<close>. The paginator is the
  SDK's: its state has some type \<open>'p\<close>, \<open>HasMorePages\<close> reads it, and
  \<open>NextPage\<close> calls the service and moves it on. \<open>Now\<close> reads the clock.
\<close>

record ('s, 'p) LogsAPI =
  LoadDefaultConfigWithRegion :: "string \<Rightarrow> 's \<Rightarrow> (error + Config) \<times> 's"
  DescribeTasks :: "Config \<Rightarrow> DescribeTasksInput \<Rightarrow> 's \<Rightarrow> (error + DescribeTasksOutput) \<times> 's"
  Now :: "'s \<Rightarrow> Time"
  NewGetLogEventsPaginator :: "Config \<Rightarrow> GetLogEventsInput \<Rightarrow> 'p"
  HasMorePages :: "'p \<Rightarrow> bool"
  NextPage :: "'p \<Rightarrow> 's \<Rightarrow> (error + GetLogEventsOutput) \<times> 'p \<times> 's"

subsection \<open>The functions of the fetcher\<close>

text \<open>A client is modelled by the \<open>Config\<close> it was built from.\<close>

definition getECSClient ::
  "('s, 'p) LogsAPI \<Rightarrow> string \<Rightarrow> 's world \<Rightarrow> (error + Config) \<times> 's world"
where
  "getECSClient api region w =
     (case LoadDefaultConfigWithRegion api region (backend w) of
        (Inl err, s) \<Rightarrow>
          (Inl (Error (''unable to load SDK config, '' @ message err)), w\<lparr>backend := s\<rparr>)
      | (Inr cfg, s) \<Rightarrow> (Inr cfg, w\<lparr>backend := s\<rparr>))"

definition getCloudWatchLogsClient ::
  "('s, 'p) LogsAPI \<Rightarrow> string \<Rightarrow> 's world \<Rightarrow> (error + Config) \<times> 's world"
where
  "getCloudWatchLogsClient api region w =
     (case LoadDefaultConfigWithRegion api region (backend w) of
        (Inl err, s) \<Rightarrow>
          (Inl (Error (''unable to load SDK config, '' @ message err)), w\<lparr>backend := s\<rparr>)
      | (Inr cfg, s) \<Rightarrow> (Inr cfg, w\<lparr>backend := s\<rparr>))"

text \<open>Lines 38-58. Line 57 dereferences \<open>container.Name\<close>.\<close>

definition getTaskLogStreamName ::
  "('s, 'p) LogsAPI \<Rightarrow> Config \<Rightarrow> string \<Rightarrow> string \<Rightarrow> 's world
     \<Rightarrow> (error + string) outcome \<times> 's world"
where
  "getTaskLogStreamName api ecsClient cluster taskID w =
     (case DescribeTasks api ecsClient \<lparr>DTI_Cluster = Some cluster, DTI_Tasks = [taskID]\<rparr>
             (backend w) of
        (Inl err, s) \<Rightarrow>
          (Return (Inl (Error (''failed to describe tasks: '' @ message err))),
           w\<lparr>backend := s\<rparr>)
      | (Inr resp, s) \<Rightarrow>
          (case DTO_Tasks resp of
             [] \<Rightarrow> (Return (Inl (Error ''task not found'')), w\<lparr>backend := s\<rparr>)
           | task # _ \<Rightarrow>
               (case Containers task of
                  [] \<Rightarrow>
                    (Return (Inl (Error ''no containers found in task'')), w\<lparr>backend := s\<rparr>)
                | container # _ \<Rightarrow>
                    (case Name container of
                       None \<Rightarrow> (Panic nilDeref, w\<lparr>backend := s\<rparr>)
                     | Some name \<Rightarrow> (Return (Inr name), w\<lparr>backend := s\<rparr>)))))"

definition fmtPrintf :: "string \<Rightarrow> 's world \<Rightarrow> 's world" where
  "fmtPrintf text w = w\<lparr>stdout := stdout w @ text\<rparr>"

text \<open>
  The inner loop of lines 78-80. The arguments of \<open>Printf\<close> are evaluated before the
  call, so a nil \<open>Timestamp\<close> or \<open>Message\<close> panics before anything of that event is
  written.
\<close>

fun printEvents ::
  "(Time \<Rightarrow> string) \<Rightarrow> OutputLogEvent list \<Rightarrow> 's world \<Rightarrow> unit outcome \<times> 's world"
where
  "printEvents TimeString [] w = (Return (), w)"
| "printEvents TimeString (event # events) w =
     (case Timestamp event of
        None \<Rightarrow> (Panic nilDeref, w)
      | Some ts \<Rightarrow>
          (case Message event of
             None \<Rightarrow> (Panic nilDeref, w)
           | Some msg \<Rightarrow>
               printEvents TimeString events
                 (fmtPrintf (TimeString (UnixMilli ts) @ [CHR 0x09] @ msg @ [CHR 0x0A]) w)))"

text \<open>
  The loop of lines 72-81. The result is the \<open>error\<close> the function returns, \<open>None\<close>
  for nil. A paginator that always has more pages keeps the loop running.
\<close>

partial_function (option) getLogEvents_loop ::
  "('s, 'p) LogsAPI \<Rightarrow> (Time \<Rightarrow> string) \<Rightarrow> 'p \<Rightarrow> 's world
     \<Rightarrow> (error option outcome \<times> 's world) option"
where
  "getLogEvents_loop api TimeString paginator w =
     (if HasMorePages api paginator then
        (case NextPage api paginator (backend w) of
           (Inl err, paginator', s) \<Rightarrow>
             Some (Return (Some (Error (''failed to get log events: '' @ message err))),
                   w\<lparr>backend := s\<rparr>)
         | (Inr page, paginator', s) \<Rightarrow>
             (case printEvents TimeString (Events page) (w\<lparr>backend := s\<rparr>) of
                (Return u, w1) \<Rightarrow> getLogEvents_loop api TimeString paginator' w1
              | (Exit c, w1) \<Rightarrow> Some (Exit c, w1)
              | (Panic m, w1) \<Rightarrow> Some (Panic m, w1)))
      else Some (Return None, w))"

declare getLogEvents_loop.simps [code]

text \<open>
  The request of lines 61-69, from the reading of the clock. The two products are
  taken in the integers: an \<open>int64\<close> holds them for every instant within 292 million
  years of the epoch.
\<close>

definition getLogEventsInput :: "Time \<Rightarrow> string \<Rightarrow> string \<Rightarrow> GetLogEventsInput" where
  "getLogEventsInput endTime logGroupName logStreamName =
     (let startTime = Add endTime (- 1 * Hour)
      in \<lparr>LogGroupName = Some logGroupName,
          LogStreamName = Some logStreamName,
          StartTime = Some (Unix startTime * UnixTimeFactor),
          EndTime = Some (Unix endTime * UnixTimeFactor)\<rparr>)"

definition getLogEvents ::
  "('s, 'p) LogsAPI \<Rightarrow> (Time \<Rightarrow> string) \<Rightarrow> Config \<Rightarrow> string \<Rightarrow> string \<Rightarrow> 's world
     \<Rightarrow> (error option outcome \<times> 's world) option"
where
  "getLogEvents api TimeString cwLogsClient logGroupName logStreamName w =
     getLogEvents_loop api TimeString
       (NewGetLogEventsPaginator api cwLogsClient
          (getLogEventsInput (Now api (backend w)) logGroupName logStreamName))
       w"

text \<open>\<open>main\<close> of the fetcher (lines 86-130).\<close>

definition logsMain ::
  "('s, 'p) LogsAPI \<Rightarrow> (Time \<Rightarrow> string) \<Rightarrow> (string \<rightharpoonup> string) \<Rightarrow> 's world
     \<Rightarrow> (unit outcome \<times> 's world) option"
where
  "logsMain api TimeString env w =
     (let region = (if Getenv env ''AWS_REGION'' = [] then ''us-west-2''
                    else Getenv env ''AWS_REGION'');
          cluster = Getenv env ''ECS_CLUSTER'';
          taskID = Getenv env ''ECS_TASK_ID'';
          logGroupName = Getenv env ''LOG_GROUP_NAME''
      in if cluster = [] then Some (Panic ''ECS_CLUSTER environment variable is required'', w)
         else if taskID = [] then
           Some (Panic ''ECS_TASK_ID environment variable is required'', w)
         else if logGroupName = [] then
           Some (Panic ''LOG_GROUP_NAME environment variable is required'', w)
         else
           (case getECSClient api region w of
              (Inl err, w1) \<Rightarrow>
                Some (logFatalf (''failed to create ECS client: '' @ message err) w1)
            | (Inr ecsClient, w1) \<Rightarrow>
                (case getCloudWatchLogsClient api region w1 of
                   (Inl err, w2) \<Rightarrow>
                     Some (logFatalf
                             (''failed to create CloudWatch Logs client: '' @ message err) w2)
                 | (Inr cwLogsClient, w2) \<Rightarrow>
                     (case getTaskLogStreamName api ecsClient cluster taskID w2 of
                        (Exit c, w3) \<Rightarrow> Some (Exit c, w3)
                      | (Panic m, w3) \<Rightarrow> Some (Panic m, w3)
                      | (Return (Inl err), w3) \<Rightarrow>
                          Some (logFatalf
                                  (''failed to get log stream name: '' @ message err) w3)
                      | (Return (Inr logStreamName), w3) \<Rightarrow>
                          (case getLogEvents api TimeString cwLogsClient logGroupName
                                  logStreamName
                                  (fmtPrintf
                                     (''Log Stream Name: '' @ logStreamName @ [CHR 0x0A]) w3) of
                             None \<Rightarrow> None
                           | Some (Exit c, w4) \<Rightarrow> Some (Exit c, w4)
                           | Some (Panic m, w4) \<Rightarrow> Some (Panic m, w4)
                           | Some (Return (Some err), w4) \<Rightarrow>
                               Some (logFatalf
                                       (''failed to get log events: '' @ message err) w4)
                           | Some (Return None, w4) \<Rightarrow> Some (Return (), w4))))))"

section \<open>What a backend serves\<close>

text \<open>
  \<open>serves call tokenOf tok s pages s'\<close>: asked with token \<open>tok\<close> in state \<open>s\<close>, and
  then with each token it hands out, the operation \<open>call\<close> answers with the responses
  \<open>pages\<close>, in this order, every one but the last carrying a token and the last
  carrying none, and is left in state \<open>s'\<close>. No request follows the last page.
\<close>

inductive serves ::
  "(string option \<Rightarrow> 's \<Rightarrow> (error + 'o) \<times> 's) \<Rightarrow> ('o \<Rightarrow> string option)
     \<Rightarrow> string option \<Rightarrow> 's \<Rightarrow> 'o list \<Rightarrow> 's \<Rightarrow> bool"
  for call :: "string option \<Rightarrow> 's \<Rightarrow> (error + 'o) \<times> 's" and tokenOf :: "'o \<Rightarrow> string option"
where
  serves_last:
    "call tok s = (Inr page, s') \<Longrightarrow> tokenOf page = None
       \<Longrightarrow> serves call tokenOf tok s [page] s'"
| serves_more:
    "call tok s = (Inr page, s') \<Longrightarrow> tokenOf page = Some t
       \<Longrightarrow> serves call tokenOf (Some t) s' pages s''
       \<Longrightarrow> serves call tokenOf tok s (page # pages) s''"

text \<open>The two operations as functions of the token, with the requests the code builds.\<close>

definition stacksPage ::
  "'s CloudAPI \<Rightarrow> Config \<Rightarrow> string option \<Rightarrow> 's \<Rightarrow> (error + ListStacksOutput) \<times> 's"
where
  "stacksPage api cfg tok = ListStacks api cfg (listStacksInput tok)"

definition resourcesPage ::
  "'s CloudAPI \<Rightarrow> Config \<Rightarrow> string \<Rightarrow> string option \<Rightarrow> 's
     \<Rightarrow> (error + ListStackResourcesOutput) \<times> 's"
where
  "resourcesPage api cfg stackID tok =
     ListStackResources api cfg (listStackResourcesInput stackID tok)"

text \<open>
  \<open>yields api p s pages s'\<close>: from paginator state \<open>p\<close> and backend state \<open>s\<close>, the
  paginator reports more pages and delivers the pages \<open>pages\<close> one after the other
  without an error, then reports no more pages, with the backend left in \<open>s'\<close>.
\<close>

inductive yields ::
  "('s, 'p) LogsAPI \<Rightarrow> 'p \<Rightarrow> 's \<Rightarrow> GetLogEventsOutput list \<Rightarrow> 's \<Rightarrow> bool"
  for api :: "('s, 'p) LogsAPI"
where
  yields_done: "\<not> HasMorePages api p \<Longrightarrow> yields api p s [] s"
| yields_page:
    "HasMorePages api p \<Longrightarrow> NextPage api p s = (Inr page, p', s')
       \<Longrightarrow> yields api p' s' pages s''
       \<Longrightarrow> yields api p s (page # pages) s''"

text \<open>
  \<open>delivers api p s pages p' s'\<close>: from paginator state \<open>p\<close> and backend state
  \<open>s\<close>, the paginator reports more pages and delivers the pages \<open>pages\<close> one after
  the other without an error, which leaves it in \<open>p'\<close> and the backend in \<open>s'\<close>.
  Nothing is said of what it does from there.
\<close>

inductive delivers ::
  "('s, 'p) LogsAPI \<Rightarrow> 'p \<Rightarrow> 's \<Rightarrow> GetLogEventsOutput list \<Rightarrow> 'p \<Rightarrow> 's \<Rightarrow> bool"
  for api :: "('s, 'p) LogsAPI"
where
  delivers_none: "delivers api p s [] p s"
| delivers_page:
    "HasMorePages api p \<Longrightarrow> NextPage api p s = (Inr page, p', s')
       \<Longrightarrow> delivers api p' s' pages p'' s''
       \<Longrightarrow> delivers api p s (page # pages) p'' s''"

text \<open>The line of one log event, for an event with both fields present.\<close>

definition eventLine :: "(Time \<Rightarrow> string) \<Rightarrow> OutputLogEvent \<Rightarrow> string" where
  "eventLine TimeString event =
     (case (Timestamp event, Message event) of
        (Some ts, Some msg) \<Rightarrow> TimeString (UnixMilli ts) @ [CHR 0x09] @ msg @ [CHR 0x0A]
      | _ \<Rightarrow> [])"

definition hasFields :: "OutputLogEvent \<Rightarrow> bool" where
  "hasFields event = (Timestamp event \<noteq> None \<and> Message event \<noteq> None)"

section \<open>Test doubles\<close>

text \<open>
  A backend for the scanner that answers from a table and keeps the list of the calls
  it received as its state.
\<close>

datatype call =
    CallLoadDefaultConfig
  | CallGetCallerIdentity Config
  | CallDescribeRegions Config bool
  | CallListStacks Config ListStacksInput
  | CallListStackResources Config ListStackResourcesInput

record mock =
  mockConfig :: "error + Config"
  mockIdentity :: "error + GetCallerIdentityOutput"
  mockRegions :: "error + Region list"
  mockStacks :: "Config \<Rightarrow> ListStacksInput \<Rightarrow> error + ListStacksOutput"
  mockResources :: "Config \<Rightarrow> ListStackResourcesInput \<Rightarrow> error + ListStackResourcesOutput"

definition mockAPI :: "mock \<Rightarrow> call list CloudAPI" where
  "mockAPI m =
     \<lparr>LoadDefaultConfig = (\<lambda>s. (mockConfig m, s @ [CallLoadDefaultConfig])),
      GetCallerIdentity = (\<lambda>cfg s. (mockIdentity m, s @ [CallGetCallerIdentity cfg])),
      DescribeRegions =
        (\<lambda>cfg allRegions s. (mockRegions m, s @ [CallDescribeRegions cfg allRegions])),
      ListStacks = (\<lambda>cfg input. \<lambda>s. (mockStacks m cfg input, s @ [CallListStacks cfg input])),
      ListStackResources =
        (\<lambda>cfg input. \<lambda>s.
           (mockResources m cfg input, s @ [CallListStackResources cfg input]))\<rparr>"

definition world0 :: "'s \<Rightarrow> 's world" where
  "world0 s = \<lparr>backend = s, logged = [], stdout = []\<rparr>"

definition stubFormat :: "Time \<Rightarrow> string \<Rightarrow> string" where
  "stubFormat t layout = (if t = 0 then ''epoch as '' else ''later as '') @ layout"

definition stackNamed :: "string \<Rightarrow> StackStatus \<Rightarrow> StackSummary" where
  "stackNamed n st =
     \<lparr>StackId = Some n, StackName = Some n, StackStatus = st,
      StackStatusReason = None, ParentId = None, RootId = None,
      CreationTime = Some 0, LastUpdatedTime = None, DeletionTime = None\<rparr>"

definition resourceNamed :: "string \<Rightarrow> StackResourceSummary" where
  "resourceNamed n =
     \<lparr>PhysicalResourceId = Some n, LogicalResourceId = Some n, ResourceType = None,
      ResourceStatus = ''CREATE_COMPLETE'', ResourceStatusReason = None,
      LastUpdatedTimestamp = None\<rparr>"

definition someIdentity :: GetCallerIdentityOutput where
  "someIdentity =
     \<lparr>Account = Some ''123456789012'', Arn = Some ''arn:aws:iam::123456789012:user/dev'',
      UserId = Some ''AIDAEXAMPLE''\<rparr>"

definition onePage :: "StackSummary list \<Rightarrow> error + ListStacksOutput" where
  "onePage stacks = Inr \<lparr>LSO_StackSummaries = stacks, LSO_NextToken = None\<rparr>"

definition onePageOf :: "StackResourceSummary list \<Rightarrow> error + ListStackResourcesOutput" where
  "onePageOf resources = Inr \<lparr>LRO_StackResourceSummaries = resources, LRO_NextToken = None\<rparr>"

text \<open>No region beyond the default one, no stack, no resource.\<close>

definition mockBase :: mock where
  "mockBase =
     \<lparr>mockConfig = Inr \<lparr>Region = ''us-west-2''\<rparr>,
      mockIdentity = Inr someIdentity,
      mockRegions = Inr [],
      mockStacks = (\<lambda>cfg input. onePage []),
      mockResources = (\<lambda>cfg input. onePageOf [])\<rparr>"

text \<open>Stacks A, B and C with one resource each; listing the resources of B fails.\<close>

definition mockABC :: mock where
  "mockABC =
     mockBase
       \<lparr>mockStacks :=
          (\<lambda>cfg input.
             onePage [stackNamed ''A'' StackStatusCreateComplete,
                      stackNamed ''B'' StackStatusCreateComplete,
                      stackNamed ''C'' StackStatusCreateComplete]),
        mockResources :=
          (\<lambda>cfg input.
             if LRI_StackName input = Some ''B'' then Inl (Error ''throttled'')
             else onePageOf [resourceNamed ''queue''])\<rparr>"

text \<open>Two region names; listing stacks fails.\<close>

definition mockDenied :: mock where
  "mockDenied =
     mockBase
       \<lparr>mockRegions := Inr [\<lparr>RegionName = Some ''eu-west-1''\<rparr>],
        mockStacks := (\<lambda>cfg input. Inl (Error ''access denied''))\<rparr>"

text \<open>
  Two regions with one stack each: the backend answers a request of a client of
  \<open>us-west-2\<close> with stack W and one of a client of \<open>eu-west-1\<close> with stack E.
\<close>

definition mockTwoRegions :: mock where
  "mockTwoRegions =
     mockBase
       \<lparr>mockRegions := Inr [\<lparr>RegionName = Some ''eu-west-1''\<rparr>],
        mockStacks :=
          (\<lambda>cfg input.
             if Region cfg = ''us-west-2'' then onePage [stackNamed ''W'' StackStatusCreateComplete]
             else if Region cfg = ''eu-west-1'' then
               onePage [stackNamed ''E'' StackStatusCreateComplete]
             else onePage [])\<rparr>"

text \<open>One stack whose \<open>StackId\<close> is nil.\<close>

definition mockNilId :: mock where
  "mockNilId =
     mockBase
       \<lparr>mockStacks :=
          (\<lambda>cfg input.
             onePage [(stackNamed ''S'' StackStatusCreateComplete)\<lparr>StackId := None\<rparr>])\<rparr>"

text \<open>
  A backend that applies the status filter of the request, as the service does, to
  three stacks.
\<close>

definition mockFiltering :: mock where
  "mockFiltering =
     mockBase
       \<lparr>mockStacks :=
          (\<lambda>cfg input.
             onePage
               (filter (\<lambda>stack. StackStatus stack \<in> set (LSI_StackStatusFilter input))
                  [stackNamed ''live'' StackStatusCreateComplete,
                   stackNamed ''cleaning'' StackStatusUpdateCompleteCleanupInProgress,
                   stackNamed ''gone'' StackStatusDeleteComplete]))\<rparr>"

text \<open>Two pages of stacks and two pages of resources, the second one empty.\<close>

definition stackPage1 :: ListStacksOutput where
  "stackPage1 =
     \<lparr>LSO_StackSummaries = [stackNamed ''A'' StackStatusCreateComplete],
      LSO_NextToken = Some ''t1''\<rparr>"

definition stackPage2 :: ListStacksOutput where
  "stackPage2 =
     \<lparr>LSO_StackSummaries =
        [stackNamed ''B'' StackStatusUpdateComplete, stackNamed ''C'' StackStatusCreateFailed],
      LSO_NextToken = None\<rparr>"

definition resourcePage1 :: ListStackResourcesOutput where
  "resourcePage1 =
     \<lparr>LRO_StackResourceSummaries = [resourceNamed ''queue'', resourceNamed ''role''],
      LRO_NextToken = Some ''r1''\<rparr>"

definition resourcePage2 :: ListStackResourcesOutput where
  "resourcePage2 = \<lparr>LRO_StackResourceSummaries = [], LRO_NextToken = None\<rparr>"

definition mockPaged :: mock where
  "mockPaged =
     mockBase
       \<lparr>mockStacks :=
          (\<lambda>cfg input. if LSI_NextToken input = None then Inr stackPage1 else Inr stackPage2),
        mockResources :=
          (\<lambda>cfg input.
             if LRI_NextToken input = None then Inr resourcePage1 else Inr resourcePage2)\<rparr>"

text \<open>
  A backend for the fetcher: a fixed clock, a fixed answer to \<open>DescribeTasks\<close>, and a
  paginator that hands out a fixed list of pages and has more pages while the list is
  not empty. The state is the list of the calls received.
\<close>

datatype logsCall =
    CallLoadConfig string
  | CallDescribeTasks Config DescribeTasksInput
  | CallGetLogEvents Config GetLogEventsInput

record logsMock =
  mockClock :: Time
  mockTasks :: "error + DescribeTasksOutput"
  mockPages :: "GetLogEventsOutput list"

type_synonym mockPaginator = "Config \<times> GetLogEventsInput \<times> GetLogEventsOutput list"

definition logsMockAPI :: "logsMock \<Rightarrow> (logsCall list, mockPaginator) LogsAPI" where
  "logsMockAPI m =
     \<lparr>LoadDefaultConfigWithRegion =
        (\<lambda>region s. (Inr \<lparr>Region = region\<rparr>, s @ [CallLoadConfig region])),
      DescribeTasks = (\<lambda>cfg input. \<lambda>s. (mockTasks m, s @ [CallDescribeTasks cfg input])),
      Now = (\<lambda>s. mockClock m),
      NewGetLogEventsPaginator = (\<lambda>cfg input. (cfg, input, mockPages m)),
      HasMorePages = (\<lambda>(cfg, input, pages). pages \<noteq> []),
      NextPage =
        (\<lambda>(cfg, input, pages). \<lambda>s.
           (case pages of
              [] \<Rightarrow> (Inl (Error ''no more pages''), (cfg, input, []), s)
            | page # rest \<Rightarrow> (Inr page, (cfg, input, rest), s @ [CallGetLogEvents cfg input])))\<rparr>"

definition stubTimeString :: "Time \<Rightarrow> string" where
  "stubTimeString t =
     (if t = 1700000000000000000 then ''2023-11-14 22:13:20 +0000 UTC''
      else if t = 1700000001000000000 then ''2023-11-14 22:13:21 +0000 UTC''
      else ''some other instant'')"

definition taskWith :: "Container list \<Rightarrow> error + DescribeTasksOutput" where
  "taskWith cs = Inr \<lparr>DTO_Tasks = [\<lparr>Containers = cs\<rparr>]\<rparr>"

text \<open>
  The scenario of the specification: one container named \<open>app\<close>, two pages with one
  event each. The clock stands at half a second past 1700000002.
\<close>

definition mockApp :: logsMock where
  "mockApp =
     \<lparr>mockClock = 1700000002500000000,
      mockTasks = taskWith [\<lparr>Name = Some ''app''\<rparr>],
      mockPages =
        [\<lparr>Events = [\<lparr>Timestamp = Some 1700000000000, Message = Some ''hello''\<rparr>]\<rparr>,
         \<lparr>Events = [\<lparr>Timestamp = Some 1700000001000, Message = Some ''world''\<rparr>]\<rparr>]\<rparr>"

definition envAll :: "string \<rightharpoonup> string" where
  "envAll =
     [''ECS_CLUSTER'' \<mapsto> ''prod'', ''ECS_TASK_ID'' \<mapsto> ''task-1'',
      ''LOG_GROUP_NAME'' \<mapsto> ''/ecs/app'']"

text \<open>The container of the task has no name.\<close>

definition mockNoName :: logsMock where
  "mockNoName = mockApp\<lparr>mockTasks := taskWith [\<lparr>Name = None\<rparr>]\<rparr>"

text \<open>The second of three events has no message.\<close>

definition mockNilMessage :: logsMock where
  "mockNilMessage =
     mockApp
       \<lparr>mockPages :=
          [\<lparr>Events = [\<lparr>Timestamp = Some 1700000000000, Message = Some ''hello''\<rparr>,
                       \<lparr>Timestamp = Some 1700000001000, Message = None\<rparr>,
                       \<lparr>Timestamp = Some 1700000001000, Message = Some ''world''\<rparr>]\<rparr>]\<rparr>"

text \<open>What a test observes of a run: how it ended, what it logged and printed, and the
  calls the backend received.\<close>

definition outcomeOf :: "('a outcome \<times> 's world) option \<Rightarrow> 'a outcome option" where
  "outcomeOf run = map_option fst run"

definition loggedOf :: "('a outcome \<times> 's world) option \<Rightarrow> string list option" where
  "loggedOf run = map_option (logged \<circ> snd) run"

definition stdoutOf :: "('a outcome \<times> 's world) option \<Rightarrow> string option" where
  "stdoutOf run = map_option (stdout \<circ> snd) run"

definition callsOf :: "('a outcome \<times> 's world) option \<Rightarrow> 's option" where
  "callsOf run = map_option (backend \<circ> snd) run"

definition startsWith :: "string \<Rightarrow> string \<Rightarrow> bool" where
  "startsWith p line = (take (length p) line = p)"

definition linesWith :: "string \<Rightarrow> ('a outcome \<times> 's world) option \<Rightarrow> string list option" where
  "linesWith p run = map_option (filter (startsWith p)) (loggedOf run)"

section \<open>Auxiliary facts\<close>

lemma fold_logPrintf: "fold logPrintf ls w = w\<lparr>logged := logged w @ ls\<rparr>"
  by (induction ls arbitrary: w) (simp_all add: logPrintf_def)

lemma UNIV_StackStatus:
  "(UNIV :: StackStatus set) =
     set stackStatusFilter
       \<union> {StackStatusDeleteComplete, StackStatusUpdateCompleteCleanupInProgress}"
proof -
  have "x \<in> set stackStatusFilter
          \<union> {StackStatusDeleteComplete, StackStatusUpdateCompleteCleanupInProgress}" for x
    by (cases x) (simp_all add: stackStatusFilter_def)
  then show ?thesis by blast
qed

text \<open>The filter holds every status but two.\<close>

lemma stackStatusFilter_set:
  "set stackStatusFilter =
     UNIV - {StackStatusDeleteComplete, StackStatusUpdateCompleteCleanupInProgress}"
proof -
  have "StackStatusDeleteComplete \<notin> set stackStatusFilter"
    and "StackStatusUpdateCompleteCleanupInProgress \<notin> set stackStatusFilter"
    by (simp_all add: stackStatusFilter_def)
  then show ?thesis using UNIV_StackStatus by blast
qed

text \<open>Every page request carries the same filter, whatever the token.\<close>

lemma listStacksInput_filter: "LSI_StackStatusFilter (listStacksInput tok) = stackStatusFilter"
  by (simp add: listStacksInput_def)

lemmas scan_defs = scanMain_def Getenv_def getCallerIdentity_def
  getAWSRegions_def printIdentity_def verbose_def logPrintf_def logFatalf_def
  cloudFormationListStacks_def cloudFormationListStackResources_def listStacks_loop.simps
  listStackResources_loop.simps listStacksInput_def listStackResourcesInput_def
  printStack_def printStackResource_def formatStrings_def fold_logPrintf stackLines_def
  stackResourceLines_def NilSafeString_def NilSafeTime_def Let_def

lemmas mock_defs = mockAPI_def world0_def stackNamed_def resourceNamed_def someIdentity_def
  stubFormat_def mockBase_def onePage_def onePageOf_def

subsection \<open>The pagination loops against what the backend serves\<close>

lemma serves_shape:
  "serves call tokenOf tok s pages s'
     \<Longrightarrow> pages \<noteq> [] \<and> tokenOf (last pages) = None \<and> (\<forall>p \<in> set (butlast pages). tokenOf p \<noteq> None)"
  by (induction rule: serves.induct) auto

lemma listStacks_loop_serves:
  "serves (stacksPage api cfg) LSO_NextToken tok s pages s'
     \<Longrightarrow> backend w = s
     \<Longrightarrow> listStacks_loop api cfg tok acc w
         = Some (Return (Inr (acc @ concat (map LSO_StackSummaries pages))), w\<lparr>backend := s'\<rparr>)"
proof (induction arbitrary: acc w rule: serves.induct)
  case (serves_last tok s page s')
  then show ?case by (subst listStacks_loop.simps) (simp add: stacksPage_def)
next
  case (serves_more tok s page s' t pages s'')
  have "listStacks_loop api cfg tok acc w
          = listStacks_loop api cfg (Some t) (acc @ LSO_StackSummaries page) (w\<lparr>backend := s'\<rparr>)"
    using serves_more.hyps(1,2) serves_more.prems
    by (subst listStacks_loop.simps) (simp add: stacksPage_def)
  also have "\<dots> = Some (Return (Inr ((acc @ LSO_StackSummaries page)
                                     @ concat (map LSO_StackSummaries pages))),
                      (w\<lparr>backend := s'\<rparr>)\<lparr>backend := s''\<rparr>)"
    by (rule serves_more.IH) simp
  finally show ?case by simp
qed

lemma listStacks_loop_returns:
  assumes "listStacks_loop api cfg tok acc w = Some res"
  shows "\<forall>r w'. res = (Return r, w') \<longrightarrow>
           (\<exists>pages. serves (stacksPage api cfg) LSO_NextToken tok (backend w) pages (backend w')
              \<and> r = Inr (acc @ concat (map LSO_StackSummaries pages))
              \<and> w' = w\<lparr>backend := backend w'\<rparr>)"
  using assms
proof (induction rule: listStacks_loop.raw_induct)
  case (1 f api cfg nextToken allStacks w y)
  obtain res s where call: "ListStacks api cfg (listStacksInput nextToken) (backend w) = (res, s)"
    by (cases "ListStacks api cfg (listStacksInput nextToken) (backend w)")
  show ?case
  proof (cases res)
    case (Inl err)
    with call "1.hyps" show ?thesis by (auto simp: logFatalf_def)
  next
    case (Inr page)
    show ?thesis
    proof (cases "LSO_NextToken page")
      case None
      with call Inr "1.hyps" show ?thesis
        by (auto intro!: exI[of _ "[page]"] serves_last simp: stacksPage_def)
    next
      case (Some t)
      with call Inr "1.hyps"
      have rec: "f api cfg (Some t) (allStacks @ LSO_StackSummaries page) (w\<lparr>backend := s\<rparr>)
                   = Some y"
        by simp
      from Some call Inr "1.prems"
      have rec2: "listStacks_loop api cfg (Some t) (allStacks @ LSO_StackSummaries page)
                    (w\<lparr>backend := s\<rparr>) = Some y"
        by (subst (asm) listStacks_loop.simps) simp
      show ?thesis
      proof (intro allI impI)
        fix r w' assume y: "y = (Return r, w')"
        from "1.IH"[OF rec rec2] y obtain pages where
          p: "serves (stacksPage api cfg) LSO_NextToken (Some t) s pages (backend w')"
          and r: "r = Inr ((allStacks @ LSO_StackSummaries page)
                            @ concat (map LSO_StackSummaries pages))"
          and w': "w' = w\<lparr>backend := backend w'\<rparr>"
          by auto
        from call Inr Some p
        have "serves (stacksPage api cfg) LSO_NextToken nextToken (backend w) (page # pages)
                (backend w')"
          by (auto intro: serves_more simp: stacksPage_def)
        then show "\<exists>pages. serves (stacksPage api cfg) LSO_NextToken nextToken (backend w) pages
                             (backend w')
                     \<and> r = Inr (allStacks @ concat (map LSO_StackSummaries pages))
                     \<and> w' = w\<lparr>backend := backend w'\<rparr>"
          using r w' by (intro exI[of _ "page # pages"]) simp
      qed
    qed
  qed
qed (rule assms)

lemma cloudFormationListStacks_iff:
  "cloudFormationListStacks api cfg w = Some (Return r, w')
     \<longleftrightarrow> (\<exists>pages. serves (stacksPage api cfg) LSO_NextToken None (backend w) pages (backend w')
            \<and> r = Inr (concat (map LSO_StackSummaries pages))
            \<and> w' = w\<lparr>backend := backend w'\<rparr>)"
proof
  assume "cloudFormationListStacks api cfg w = Some (Return r, w')"
  then show "\<exists>pages. serves (stacksPage api cfg) LSO_NextToken None (backend w) pages (backend w')
            \<and> r = Inr (concat (map LSO_StackSummaries pages))
            \<and> w' = w\<lparr>backend := backend w'\<rparr>"
    using listStacks_loop_returns[of api cfg None "[]" w "(Return r, w')"]
    by (simp add: cloudFormationListStacks_def)
next
  assume "\<exists>pages. serves (stacksPage api cfg) LSO_NextToken None (backend w) pages (backend w')
            \<and> r = Inr (concat (map LSO_StackSummaries pages))
            \<and> w' = w\<lparr>backend := backend w'\<rparr>"
  then obtain pages where p: "serves (stacksPage api cfg) LSO_NextToken None (backend w) pages (backend w')"
    and r: "r = Inr (concat (map LSO_StackSummaries pages))" and w': "w' = w\<lparr>backend := backend w'\<rparr>"
    by blast
  from listStacks_loop_serves[OF p refl, of "[]"] r w'
  show "cloudFormationListStacks api cfg w = Some (Return r, w')"
    by (simp add: cloudFormationListStacks_def)
qed

lemma listStackResources_loop_serves:
  "serves (resourcesPage api cfg stackID) LRO_NextToken tok s pages s'
     \<Longrightarrow> backend w = s
     \<Longrightarrow> listStackResources_loop api cfg stackID tok acc w
         = Some (Return (Inr (acc @ concat (map LRO_StackResourceSummaries pages))), w\<lparr>backend := s'\<rparr>)"
proof (induction arbitrary: acc w rule: serves.induct)
  case (serves_last tok s page s')
  then show ?case by (subst listStackResources_loop.simps) (simp add: resourcesPage_def)
next
  case (serves_more tok s page s' t pages s'')
  have "listStackResources_loop api cfg stackID tok acc w
          = listStackResources_loop api cfg stackID (Some t) (acc @ LRO_StackResourceSummaries page) (w\<lparr>backend := s'\<rparr>)"
    using serves_more.hyps(1,2) serves_more.prems
    by (subst listStackResources_loop.simps) (simp add: resourcesPage_def)
  also have "\<dots> = Some (Return (Inr ((acc @ LRO_StackResourceSummaries page)
                                     @ concat (map LRO_StackResourceSummaries pages))),
                      (w\<lparr>backend := s'\<rparr>)\<lparr>backend := s''\<rparr>)"
    by (rule serves_more.IH) simp
  finally show ?case by simp
qed

lemma listStackResources_loop_returns:
  assumes "listStackResources_loop api cfg stackID tok acc w = Some res"
  shows "\<forall>r w'. res = (Return r, w') \<longrightarrow>
           (\<exists>pages. serves (resourcesPage api cfg stackID) LRO_NextToken tok (backend w) pages (backend w')
              \<and> r = Inr (acc @ concat (map LRO_StackResourceSummaries pages))
              \<and> w' = w\<lparr>backend := backend w'\<rparr>)"
  using assms
proof (induction rule: listStackResources_loop.raw_induct)
  case (1 f api cfg stackID nextToken allStackResources w y)
  obtain res s where call: "ListStackResources api cfg (listStackResourcesInput stackID nextToken) (backend w) = (res, s)"
    by (cases "ListStackResources api cfg (listStackResourcesInput stackID nextToken) (backend w)")
  show ?case
  proof (cases res)
    case (Inl err)
    with call "1.hyps" show ?thesis by (auto simp: logFatalf_def)
  next
    case (Inr page)
    show ?thesis
    proof (cases "LRO_NextToken page")
      case None
      with call Inr "1.hyps" show ?thesis
        by (auto intro!: exI[of _ "[page]"] serves_last simp: resourcesPage_def)
    next
      case (Some t)
      with call Inr "1.hyps"
      have rec: "f api cfg stackID (Some t) (allStackResources @ LRO_StackResourceSummaries page) (w\<lparr>backend := s\<rparr>)
                   = Some y"
        by simp
      from Some call Inr "1.prems"
      have rec2: "listStackResources_loop api cfg stackID (Some t) (allStackResources @ LRO_StackResourceSummaries page)
                    (w\<lparr>backend := s\<rparr>) = Some y"
        by (subst (asm) listStackResources_loop.simps) simp
      show ?thesis
      proof (intro allI impI)
        fix r w' assume y: "y = (Return r, w')"
        from "1.IH"[OF rec rec2] y obtain pages where
          p: "serves (resourcesPage api cfg stackID) LRO_NextToken (Some t) s pages (backend w')"
          and r: "r = Inr ((allStackResources @ LRO_StackResourceSummaries page)
                            @ concat (map LRO_StackResourceSummaries pages))"
          and w': "w' = w\<lparr>backend := backend w'\<rparr>"
          by auto
        from call Inr Some p
        have "serves (resourcesPage api cfg stackID) LRO_NextToken nextToken (backend w) (page # pages)
                (backend w')"
          by (auto intro: serves_more simp: resourcesPage_def)
        then show "\<exists>pages. serves (resourcesPage api cfg stackID) LRO_NextToken nextToken (backend w) pages
                             (backend w')
                     \<and> r = Inr (allStackResources @ concat (map LRO_StackResourceSummaries pages))
                     \<and> w' = w\<lparr>backend := backend w'\<rparr>"
          using r w' by (intro exI[of _ "page # pages"]) simp
      qed
    qed
  qed
qed (rule assms)

lemma cloudFormationListStackResources_iff:
  "cloudFormationListStackResources api cfg stackID w = Some (Return r, w')
     \<longleftrightarrow> (\<exists>pages. serves (resourcesPage api cfg stackID) LRO_NextToken None (backend w) pages (backend w')
            \<and> r = Inr (concat (map LRO_StackResourceSummaries pages))
            \<and> w' = w\<lparr>backend := backend w'\<rparr>)"
proof
  assume "cloudFormationListStackResources api cfg stackID w = Some (Return r, w')"
  then show "\<exists>pages. serves (resourcesPage api cfg stackID) LRO_NextToken None (backend w) pages (backend w')
            \<and> r = Inr (concat (map LRO_StackResourceSummaries pages))
            \<and> w' = w\<lparr>backend := backend w'\<rparr>"
    using listStackResources_loop_returns[of api cfg stackID None "[]" w "(Return r, w')"]
    by (simp add: cloudFormationListStackResources_def)
next
  assume "\<exists>pages. serves (resourcesPage api cfg stackID) LRO_NextToken None (backend w) pages (backend w')
            \<and> r = Inr (concat (map LRO_StackResourceSummaries pages))
            \<and> w' = w\<lparr>backend := backend w'\<rparr>"
  then obtain pages where p: "serves (resourcesPage api cfg stackID) LRO_NextToken None (backend w) pages (backend w')"
    and r: "r = Inr (concat (map LRO_StackResourceSummaries pages))" and w': "w' = w\<lparr>backend := backend w'\<rparr>"
    by blast
  from listStackResources_loop_serves[OF p refl, of "[]"] r w'
  show "cloudFormationListStackResources api cfg stackID w = Some (Return r, w')"
    by (simp add: cloudFormationListStackResources_def)
qed

subsection \<open>The error handlers of the scanner\<close>

text \<open>
  Neither listing function ever returns an error to \<open>main\<close>: a failed call ends the
  process inside the function. The handlers of lines 204-207 and 224-227 are never
  entered.
\<close>

lemma cloudFormationListStacks_no_error_returned:
  "cloudFormationListStacks api cfg w \<noteq> Some (Return (Inl err), w')"
  using cloudFormationListStacks_iff [of api cfg w "Inl err" w'] by auto

lemma cloudFormationListStackResources_no_error_returned:
  "cloudFormationListStackResources api cfg stackID w \<noteq> Some (Return (Inl err), w')"
  using cloudFormationListStackResources_iff [of api cfg stackID w "Inl err" w'] by auto

lemma cloudFormationListStackResources_failure:
  "ListStackResources api cfg (listStackResourcesInput stackID None) (backend w) = (Inl err, s)
     \<Longrightarrow> cloudFormationListStackResources api cfg stackID w
         = Some (Exit 1, logPrintf (''Unable to ListStacks: '' @ message err) (w\<lparr>backend := s\<rparr>))"
  unfolding cloudFormationListStackResources_def
  by (subst listStackResources_loop.simps) (simp add: logFatalf_def)

lemma cloudFormationListStacks_failure:
  "ListStacks api cfg (listStacksInput None) (backend w) = (Inl err, s)
     \<Longrightarrow> cloudFormationListStacks api cfg w
         = Some (Exit 1, logPrintf (''Unable to ListStacks: '' @ message err) (w\<lparr>backend := s\<rparr>))"
  unfolding cloudFormationListStacks_def
  by (subst listStacks_loop.simps) (simp add: logFatalf_def)

text \<open>
  A failed resource listing ends the scan of the stacks at that stack, whatever
  follows it and whatever the backend.
\<close>

lemma scanStacks_failure:
  "StackId stack = Some stackID
     \<Longrightarrow> ListStackResources api cfg (listStackResourcesInput stackID None)
           (backend (printStack Format stack w)) = (Inl err, s)
     \<Longrightarrow> scanStacks api Format cfg (stack # stacks) w
         = Some (Exit 1,
                 logPrintf (''Unable to ListStacks: '' @ message err)
                   ((printStack Format stack w)\<lparr>backend := s\<rparr>))"
  by (simp add: cloudFormationListStackResources_failure)

text \<open>A stack without an id is printed and then stops the scan, whatever follows it.\<close>

lemma scanStacks_nil_StackId:
  "StackId stack = None
     \<Longrightarrow> scanStacks api Format cfg (stack # stacks) w
         = Some (Panic nilDeref, printStack Format stack w)"
  by simp

text \<open>The banner dereferences the fields of the identity in the same way.\<close>

lemma printIdentity_nil_Account:
  "Account identity = None \<Longrightarrow> printIdentity identity w = (Panic nilDeref, w)"
  by (simp add: printIdentity_def)

lemmas observe_defs =
  outcomeOf_def loggedOf_def stdoutOf_def callsOf_def startsWith_def linesWith_def

subsection \<open>The log events of the fetcher\<close>

lemma printEvents_complete:
  "\<forall>event \<in> set events. hasFields event
     \<Longrightarrow> printEvents TimeString events w
         = (Return (), w\<lparr>stdout := stdout w @ concat (map (eventLine TimeString) events)\<rparr>)"
proof (induction events arbitrary: w)
  case Nil
  then show ?case by simp
next
  case (Cons event events)
  from Cons.prems obtain ts msg where "Timestamp event = Some ts" "Message event = Some msg"
    by (auto simp: hasFields_def)
  with Cons show ?case
    by (simp add: eventLine_def fmtPrintf_def)
qed

lemma getLogEvents_loop_yields:
  "yields api p s pages s'
     \<Longrightarrow> backend w = s
     \<Longrightarrow> \<forall>page \<in> set pages. \<forall>event \<in> set (Events page). hasFields event
     \<Longrightarrow> getLogEvents_loop api TimeString p w
         = Some (Return None,
                 w\<lparr>backend := s',
                   stdout := stdout w
                     @ concat (map (eventLine TimeString) (concat (map Events pages)))\<rparr>)"
proof (induction arbitrary: w rule: yields.induct)
  case (yields_done p s)
  then show ?case by (subst getLogEvents_loop.simps) simp
next
  case (yields_page p s page p' s' pages s'')
  have events: "\<forall>event \<in> set (Events page). hasFields event"
    using yields_page.prems(2) by simp
  have "getLogEvents_loop api TimeString p w
          = getLogEvents_loop api TimeString p'
              (w\<lparr>backend := s',
                 stdout := stdout w @ concat (map (eventLine TimeString) (Events page))\<rparr>)"
    using yields_page.hyps(1,2) yields_page.prems(1)
    by (subst getLogEvents_loop.simps) (simp add: printEvents_complete [OF events])
  also have "\<dots> = Some (Return None,
                 (w\<lparr>backend := s',
                    stdout := stdout w @ concat (map (eventLine TimeString) (Events page))\<rparr>)
                 \<lparr>backend := s'',
                   stdout := stdout (w\<lparr>backend := s',
                    stdout := stdout w @ concat (map (eventLine TimeString) (Events page))\<rparr>)
                     @ concat (map (eventLine TimeString) (concat (map Events pages)))\<rparr>)"
    using yields_page.prems(2) by (intro yields_page.IH) simp_all
  finally show ?case by simp
qed

text \<open>
  The first event of a page that lacks a field ends the run with a panic, after the
  lines of the pages and events before it.
\<close>

lemma printEvents_panics:
  "\<forall>event \<in> set good. hasFields event
     \<Longrightarrow> \<not> hasFields bad
     \<Longrightarrow> printEvents TimeString (good @ bad # rest) w
         = (Panic nilDeref, w\<lparr>stdout := stdout w @ concat (map (eventLine TimeString) good)\<rparr>)"
proof (induction good arbitrary: w)
  case Nil
  then show ?case by (auto simp: hasFields_def split: option.splits)
next
  case (Cons event good)
  from Cons.prems obtain ts msg where "Timestamp event = Some ts" "Message event = Some msg"
    by (auto simp: hasFields_def)
  with Cons show ?case
    by (simp add: eventLine_def fmtPrintf_def)
qed

lemma getLogEvents_loop_panics:
  "delivers api p s pages p1 s1
     \<Longrightarrow> backend w = s
     \<Longrightarrow> \<forall>page \<in> set pages. \<forall>event \<in> set (Events page). hasFields event
     \<Longrightarrow> HasMorePages api p1
     \<Longrightarrow> NextPage api p1 s1 = (Inr page, p2, s2)
     \<Longrightarrow> Events page = good @ bad # rest
     \<Longrightarrow> \<forall>event \<in> set good. hasFields event
     \<Longrightarrow> \<not> hasFields bad
     \<Longrightarrow> getLogEvents_loop api TimeString p w
         = Some (Panic nilDeref,
                 w\<lparr>backend := s2,
                   stdout := stdout w
                     @ concat (map (eventLine TimeString) (concat (map Events pages) @ good))\<rparr>)"
proof (induction arbitrary: w rule: delivers.induct)
  case (delivers_none p s)
  then show ?case
    by (subst getLogEvents_loop.simps) (simp add: printEvents_panics)
next
  case (delivers_page p s first p' s' pages p'' s'')
  have events: "\<forall>event \<in> set (Events first). hasFields event"
    using delivers_page.prems(2) by simp
  have "getLogEvents_loop api TimeString p w
          = getLogEvents_loop api TimeString p'
              (w\<lparr>backend := s',
                 stdout := stdout w @ concat (map (eventLine TimeString) (Events first))\<rparr>)"
    using delivers_page.hyps(1,2) delivers_page.prems(1)
    by (subst getLogEvents_loop.simps) (simp add: printEvents_complete [OF events])
  also have "\<dots> = Some (Panic nilDeref,
                 (w\<lparr>backend := s',
                    stdout := stdout w @ concat (map (eventLine TimeString) (Events first))\<rparr>)
                 \<lparr>backend := s2,
                   stdout := stdout (w\<lparr>backend := s',
                    stdout := stdout w @ concat (map (eventLine TimeString) (Events first))\<rparr>)
                     @ concat (map (eventLine TimeString) (concat (map Events pages) @ good))\<rparr>)"
    using delivers_page.prems by (intro delivers_page.IH) simp_all
  finally show ?case by simp
qed

lemma Unix_hour_before: "Unix (Add now (- Hour)) = Unix now - 3600"
proof -
  have "now - 3600000000000 = now + (- 3600) * 1000000000" by simp
  then have "(now - 3600000000000) div 1000000000 = - 3600 + now div 1000000000"
    by (simp only: div_mult_self1)
  then show ?thesis by (simp add: Unix_def Add_def Hour_def)
qed

lemma getLogEventsInput_window:
  "getLogEventsInput now logGroupName logStreamName
     = \<lparr>LogGroupName = Some logGroupName, LogStreamName = Some logStreamName,
        StartTime = Some (Unix now * 1000 - 3600000), EndTime = Some (Unix now * 1000)\<rparr>"
  by (simp add: getLogEventsInput_def Unix_hour_before UnixTimeFactor_def Let_def algebra_simps)

lemmas logs_defs = logsMain_def Getenv_def getECSClient_def getCloudWatchLogsClient_def
  getTaskLogStreamName_def getLogEvents_def getLogEvents_loop.simps getLogEventsInput_def
  fmtPrintf_def logFatalf_def logPrintf_def Add_def Hour_def Unix_def UnixMilli_def
  UnixTimeFactor_def Let_def

lemmas logsMock_defs = logsMockAPI_def mockApp_def taskWith_def stubTimeString_def world0_def
  envAll_def

section \<open>The claims\<close>

text \<open>
  C1, evaluated on the code. Stacks A, B and C are listed and the resource listing of B
  fails: the process ends with status 1 inside \<open>cloudFormationListStackResources\<close>.
  The log holds the stacks A and B and the line of \<open>log.Fatalf\<close>; stack C is never
  reached and the line of the handler of \<open>main\<close> is never written. In the same way a
  failed stack listing ends the process in the first region: the second region is
  never visited.
\<close>

theorem failed_resource_listing_ends_the_process:
  "outcomeOf (scanMain (mockAPI mockABC) stubFormat Map.empty (world0 [])) = Some (Exit 1)
   \<and> map_option exitCode (outcomeOf (scanMain (mockAPI mockABC) stubFormat Map.empty (world0 [])))
       = Some 1
   \<and> linesWith ''  - Id: '' (scanMain (mockAPI mockABC) stubFormat Map.empty (world0 []))
       = Some [''  - Id: A'', ''  - Id: B'']
   \<and> linesWith ''Error calling'' (scanMain (mockAPI mockABC) stubFormat Map.empty (world0 []))
       = Some []
   \<and> linesWith ''Unable to'' (scanMain (mockAPI mockABC) stubFormat Map.empty (world0 []))
       = Some [''Unable to ListStacks: throttled'']
   \<and> outcomeOf (scanMain (mockAPI mockDenied) stubFormat Map.empty (world0 [])) = Some (Exit 1)
   \<and> linesWith ''- Region: '' (scanMain (mockAPI mockDenied) stubFormat Map.empty (world0 []))
       = Some [''- Region: us-west-2'']
   \<and> linesWith ''Error calling'' (scanMain (mockAPI mockDenied) stubFormat Map.empty (world0 []))
       = Some []"
  by (simp_all add: observe_defs scan_defs mock_defs mockABC_def mockDenied_def)

text \<open>
  C2, evaluated on the code. The claim holds for \<open>DELETE_COMPLETE\<close>, which no request
  lets through, but the filter of a page request is not the full set of statuses
  without it: \<open>UPDATE_COMPLETE_CLEANUP_IN_PROGRESS\<close> is a status other than
  \<open>DELETE_COMPLETE\<close> and is missing too. A backend that applies the filter to a
  stack in each of the statuses \<open>CREATE_COMPLETE\<close>,
  \<open>UPDATE_COMPLETE_CLEANUP_IN_PROGRESS\<close> and \<open>DELETE_COMPLETE\<close> hands back the
  first stack only.
\<close>

theorem filter_omits_update_cleanup_status:
  "StackStatusUpdateCompleteCleanupInProgress \<noteq> StackStatusDeleteComplete
   \<and> StackStatusUpdateCompleteCleanupInProgress
        \<notin> set (LSI_StackStatusFilter (listStacksInput None))
   \<and> StackStatusDeleteComplete \<notin> set (LSI_StackStatusFilter (listStacksInput None))
   \<and> set (LSI_StackStatusFilter (listStacksInput None)) \<noteq> UNIV - {StackStatusDeleteComplete}
   \<and> map_option fst
         (cloudFormationListStacks (mockAPI mockFiltering) \<lparr>Region = ''us-west-2''\<rparr>
            (world0 []))
       = Some (Return (Inr [stackNamed ''live'' StackStatusCreateComplete]))"
proof (intro conjI)
  show "StackStatusUpdateCompleteCleanupInProgress \<noteq> StackStatusDeleteComplete"
    by simp
  show "StackStatusUpdateCompleteCleanupInProgress
          \<notin> set (LSI_StackStatusFilter (listStacksInput None))"
    by (simp add: listStacksInput_filter stackStatusFilter_set)
  show "StackStatusDeleteComplete \<notin> set (LSI_StackStatusFilter (listStacksInput None))"
    by (simp add: listStacksInput_filter stackStatusFilter_set)
  show "set (LSI_StackStatusFilter (listStacksInput None)) \<noteq> UNIV - {StackStatusDeleteComplete}"
    unfolding listStacksInput_filter stackStatusFilter_set by blast
  show "map_option fst
          (cloudFormationListStacks (mockAPI mockFiltering) \<lparr>Region = ''us-west-2''\<rparr>
             (world0 []))
        = Some (Return (Inr [stackNamed ''live'' StackStatusCreateComplete]))"
    by (simp add: scan_defs mock_defs mockFiltering_def stackStatusFilter_def)
qed

text \<open>
  C3. Each of the two paginated enumerations returns exactly when the backend, asked
  first without a token and then with each token it hands out, serves a finite run of
  pages of which the last, and only the last, carries no token. What it returns then is
  the concatenation of the pages' items in the order served, whose length is the sum of
  the pages' item counts, and the backend is left as it was right after the page without
  a token: no request follows it. A single page without items and without a token gives
  the empty sequence, not an error.
\<close>

theorem paginated_enumerations_concatenate_pages:
  "(cloudFormationListStacks api cfg w = Some (Return r, w')
      \<longleftrightarrow> (\<exists>pages. serves (stacksPage api cfg) LSO_NextToken None (backend w) pages (backend w')
             \<and> LSO_NextToken (last pages) = None
             \<and> (\<forall>p \<in> set (butlast pages). LSO_NextToken p \<noteq> None)
             \<and> r = Inr (concat (map LSO_StackSummaries pages))
             \<and> (\<exists>xs. r = Inr xs \<and> length xs = (\<Sum>p\<leftarrow>pages. length (LSO_StackSummaries p)))
             \<and> w' = w\<lparr>backend := backend w'\<rparr>))
   \<and> (cloudFormationListStackResources api cfg stackID v = Some (Return q, v')
      \<longleftrightarrow> (\<exists>pages. serves (resourcesPage api cfg stackID) LRO_NextToken None (backend v) pages
                      (backend v')
             \<and> LRO_NextToken (last pages) = None
             \<and> (\<forall>p \<in> set (butlast pages). LRO_NextToken p \<noteq> None)
             \<and> q = Inr (concat (map LRO_StackResourceSummaries pages))
             \<and> (\<exists>xs. q = Inr xs
                    \<and> length xs = (\<Sum>p\<leftarrow>pages. length (LRO_StackResourceSummaries p)))
             \<and> v' = v\<lparr>backend := backend v'\<rparr>))
   \<and> (stacksPage api cfg None (backend w)
         = (Inr \<lparr>LSO_StackSummaries = [], LSO_NextToken = None\<rparr>, s)
       \<longrightarrow> cloudFormationListStacks api cfg w = Some (Return (Inr []), w\<lparr>backend := s\<rparr>))
   \<and> (resourcesPage api cfg stackID None (backend v)
         = (Inr \<lparr>LRO_StackResourceSummaries = [], LRO_NextToken = None\<rparr>, t)
       \<longrightarrow> cloudFormationListStackResources api cfg stackID v
             = Some (Return (Inr []), v\<lparr>backend := t\<rparr>))"
proof (intro conjI impI)
  show "cloudFormationListStacks api cfg w = Some (Return r, w')
      \<longleftrightarrow> (\<exists>pages. serves (stacksPage api cfg) LSO_NextToken None (backend w) pages (backend w')
             \<and> LSO_NextToken (last pages) = None
             \<and> (\<forall>p \<in> set (butlast pages). LSO_NextToken p \<noteq> None)
             \<and> r = Inr (concat (map LSO_StackSummaries pages))
             \<and> (\<exists>xs. r = Inr xs \<and> length xs = (\<Sum>p\<leftarrow>pages. length (LSO_StackSummaries p)))
             \<and> w' = w\<lparr>backend := backend w'\<rparr>)"
    unfolding cloudFormationListStacks_iff
    using serves_shape[of "stacksPage api cfg" LSO_NextToken None "backend w" _ "backend w'"]
    by (auto simp: length_concat comp_def)
  show "cloudFormationListStackResources api cfg stackID v = Some (Return q, v')
      \<longleftrightarrow> (\<exists>pages. serves (resourcesPage api cfg stackID) LRO_NextToken None (backend v) pages
                      (backend v')
             \<and> LRO_NextToken (last pages) = None
             \<and> (\<forall>p \<in> set (butlast pages). LRO_NextToken p \<noteq> None)
             \<and> q = Inr (concat (map LRO_StackResourceSummaries pages))
             \<and> (\<exists>xs. q = Inr xs
                    \<and> length xs = (\<Sum>p\<leftarrow>pages. length (LRO_StackResourceSummaries p)))
             \<and> v' = v\<lparr>backend := backend v'\<rparr>)"
    unfolding cloudFormationListStackResources_iff
    using serves_shape[of "resourcesPage api cfg stackID" LRO_NextToken None "backend v" _ "backend v'"]
    by (auto simp: length_concat comp_def)
next
  assume "stacksPage api cfg None (backend w)
         = (Inr \<lparr>LSO_StackSummaries = [], LSO_NextToken = None\<rparr>, s)"
  then show "cloudFormationListStacks api cfg w = Some (Return (Inr []), w\<lparr>backend := s\<rparr>)"
    unfolding cloudFormationListStacks_def
    by (subst listStacks_loop.simps) (simp add: stacksPage_def)
next
  assume "resourcesPage api cfg stackID None (backend v)
         = (Inr \<lparr>LRO_StackResourceSummaries = [], LRO_NextToken = None\<rparr>, t)"
  then show "cloudFormationListStackResources api cfg stackID v
             = Some (Return (Inr []), v\<lparr>backend := t\<rparr>)"
    unfolding cloudFormationListStackResources_def
    by (subst listStackResources_loop.simps) (simp add: resourcesPage_def)
qed

theorem paginated_enumerations_concatenate_pages_witness:
  "cloudFormationListStacks (mockAPI mockPaged) \<lparr>Region = ''us-west-2''\<rparr> (world0 [])
     = Some (Return (Inr [stackNamed ''A'' StackStatusCreateComplete,
                          stackNamed ''B'' StackStatusUpdateComplete,
                          stackNamed ''C'' StackStatusCreateFailed]),
             world0 [CallListStacks \<lparr>Region = ''us-west-2''\<rparr> (listStacksInput None),
                     CallListStacks \<lparr>Region = ''us-west-2''\<rparr> (listStacksInput (Some ''t1''))])
   \<and> cloudFormationListStackResources (mockAPI mockPaged) \<lparr>Region = ''us-west-2''\<rparr> ''A''
         (world0 [])
     = Some (Return (Inr [resourceNamed ''queue'', resourceNamed ''role'']),
             world0 [CallListStackResources \<lparr>Region = ''us-west-2''\<rparr>
                       (listStackResourcesInput ''A'' None),
                     CallListStackResources \<lparr>Region = ''us-west-2''\<rparr>
                       (listStackResourcesInput ''A'' (Some ''r1''))])
   \<and> cloudFormationListStacks (mockAPI mockBase) \<lparr>Region = ''us-west-2''\<rparr> (world0 [])
     = Some (Return (Inr []),
             world0 [CallListStacks \<lparr>Region = ''us-west-2''\<rparr> (listStacksInput None)])
   \<and> cloudFormationListStackResources (mockAPI mockBase) \<lparr>Region = ''us-west-2''\<rparr> ''A''
         (world0 [])
     = Some (Return (Inr []),
             world0 [CallListStackResources \<lparr>Region = ''us-west-2''\<rparr>
                       (listStackResourcesInput ''A'' None)])"
proof -
  let ?cfg = "\<lparr>Region = ''us-west-2''\<rparr>"
  let ?s1 = "[CallListStacks ?cfg (listStacksInput None)]"
  let ?s2 = "?s1 @ [CallListStacks ?cfg (listStacksInput (Some ''t1''))]"
  let ?t1 = "[CallListStackResources ?cfg (listStackResourcesInput ''A'' None)]"
  let ?t2 = "?t1 @ [CallListStackResources ?cfg (listStackResourcesInput ''A'' (Some ''r1''))]"
  have p1: "stacksPage (mockAPI mockPaged) ?cfg None [] = (Inr stackPage1, ?s1)"
    by (simp add: stacksPage_def mockAPI_def mockPaged_def listStacksInput_def)
  have p2: "stacksPage (mockAPI mockPaged) ?cfg (Some ''t1'') ?s1 = (Inr stackPage2, ?s2)"
    by (simp add: stacksPage_def mockAPI_def mockPaged_def listStacksInput_def)
  have stacks: "serves (stacksPage (mockAPI mockPaged) ?cfg) LSO_NextToken None []
                  [stackPage1, stackPage2] ?s2"
  proof (rule serves_more)
    show "stacksPage (mockAPI mockPaged) ?cfg None [] = (Inr stackPage1, ?s1)" by (rule p1)
    show "LSO_NextToken stackPage1 = Some ''t1''" by (simp add: stackPage1_def)
    show "serves (stacksPage (mockAPI mockPaged) ?cfg) LSO_NextToken (Some ''t1'') ?s1
            [stackPage2] ?s2"
      by (rule serves_last, rule p2) (simp add: stackPage2_def)
  qed
  have q1: "resourcesPage (mockAPI mockPaged) ?cfg ''A'' None [] = (Inr resourcePage1, ?t1)"
    by (simp add: resourcesPage_def mockAPI_def mockPaged_def listStackResourcesInput_def)
  have q2: "resourcesPage (mockAPI mockPaged) ?cfg ''A'' (Some ''r1'') ?t1
              = (Inr resourcePage2, ?t2)"
    by (simp add: resourcesPage_def mockAPI_def mockPaged_def listStackResourcesInput_def)
  have resources: "serves (resourcesPage (mockAPI mockPaged) ?cfg ''A'') LRO_NextToken None []
                     [resourcePage1, resourcePage2] ?t2"
  proof (rule serves_more)
    show "resourcesPage (mockAPI mockPaged) ?cfg ''A'' None [] = (Inr resourcePage1, ?t1)"
      by (rule q1)
    show "LRO_NextToken resourcePage1 = Some ''r1''" by (simp add: resourcePage1_def)
    show "serves (resourcesPage (mockAPI mockPaged) ?cfg ''A'') LRO_NextToken (Some ''r1'') ?t1
            [resourcePage2] ?t2"
      by (rule serves_last, rule q2) (simp add: resourcePage2_def)
  qed
  have e1: "stacksPage (mockAPI mockBase) ?cfg None (backend (world0 []))
              = (Inr \<lparr>LSO_StackSummaries = [], LSO_NextToken = None\<rparr>, ?s1)"
    by (simp add: stacksPage_def mockAPI_def mockBase_def onePage_def world0_def)
  have e2: "resourcesPage (mockAPI mockBase) ?cfg ''A'' None (backend (world0 []))
              = (Inr \<lparr>LRO_StackResourceSummaries = [], LRO_NextToken = None\<rparr>, ?t1)"
    by (simp add: resourcesPage_def mockAPI_def mockBase_def onePageOf_def world0_def)
  note paged =
    paginated_enumerations_concatenate_pages
      [where api = "mockAPI mockPaged" and cfg = ?cfg and w = "world0 []" and v = "world0 []"
         and stackID = "''A''" and w' = "world0 ?s2" and v' = "world0 ?t2"
         and r = "Inr (concat (map LSO_StackSummaries [stackPage1, stackPage2]))"
         and q = "Inr (concat (map LRO_StackResourceSummaries [resourcePage1, resourcePage2]))"]
  note empty =
    paginated_enumerations_concatenate_pages
      [where api = "mockAPI mockBase" and cfg = ?cfg and w = "world0 []" and v = "world0 []"
         and stackID = "''A''" and s = ?s1 and t = ?t1]
  have a: "cloudFormationListStacks (mockAPI mockPaged) ?cfg (world0 [])
             = Some (Return (Inr (concat (map LSO_StackSummaries [stackPage1, stackPage2]))),
                     world0 ?s2)"
    apply (rule iffD2[OF conjunct1[OF paged]])
    apply (rule exI[of _ "[stackPage1, stackPage2]"])
    using stacks apply (simp add: world0_def stackPage1_def stackPage2_def)
    done
  have b: "cloudFormationListStackResources (mockAPI mockPaged) ?cfg ''A'' (world0 [])
             = Some (Return (Inr (concat (map LRO_StackResourceSummaries
                                           [resourcePage1, resourcePage2]))),
                     world0 ?t2)"
    apply (rule iffD2[OF conjunct1[OF conjunct2[OF paged]]])
    apply (rule exI[of _ "[resourcePage1, resourcePage2]"])
    using resources apply (simp add: world0_def resourcePage1_def resourcePage2_def)
    done
  from empty e1 have c: "cloudFormationListStacks (mockAPI mockBase) ?cfg (world0 [])
       = Some (Return (Inr []), (world0 [])\<lparr>backend := ?s1\<rparr>)"
    by blast
  from empty e2 have d: "cloudFormationListStackResources (mockAPI mockBase) ?cfg ''A'' (world0 [])
       = Some (Return (Inr []), (world0 [])\<lparr>backend := ?t1\<rparr>)"
    by blast
  from a b c d show ?thesis
    by (simp add: world0_def stackPage1_def stackPage2_def resourcePage1_def resourcePage2_def)
qed

text \<open>
  C4, evaluated on the code. The backend holds stack W in \<open>us-west-2\<close> and stack E in
  \<open>eu-west-1\<close>, and both region names are detected. The scanner announces both
  regions, but all its requests go out through the one client configuration that
  \<open>LoadDefaultConfig\<close> gave (region \<open>us-west-2\<close>): stack W is listed twice and
  stack E never.
\<close>

theorem region_name_never_reaches_the_listing:
  "outcomeOf (scanMain (mockAPI mockTwoRegions) stubFormat Map.empty (world0 []))
     = Some (Return ())
   \<and> linesWith ''- Region: ''
         (scanMain (mockAPI mockTwoRegions) stubFormat Map.empty (world0 []))
     = Some [''- Region: us-west-2'', ''- Region: eu-west-1'']
   \<and> linesWith ''  - Id: ''
         (scanMain (mockAPI mockTwoRegions) stubFormat Map.empty (world0 []))
     = Some [''  - Id: W'', ''  - Id: W'']
   \<and> callsOf (scanMain (mockAPI mockTwoRegions) stubFormat Map.empty (world0 []))
     = Some [CallLoadDefaultConfig,
             CallGetCallerIdentity \<lparr>Region = ''us-west-2''\<rparr>,
             CallDescribeRegions \<lparr>Region = ''us-west-2''\<rparr> False,
             CallListStacks \<lparr>Region = ''us-west-2''\<rparr> (listStacksInput None),
             CallListStackResources \<lparr>Region = ''us-west-2''\<rparr>
               (listStackResourcesInput ''W'' None),
             CallListStacks \<lparr>Region = ''us-west-2''\<rparr> (listStacksInput None),
             CallListStackResources \<lparr>Region = ''us-west-2''\<rparr>
               (listStackResourcesInput ''W'' None)]"
  by (simp_all add: observe_defs scan_defs mock_defs mockTwoRegions_def)

text \<open>
  C5, evaluated on the code. A stack summary whose \<open>StackId\<close> is nil is printed with
  the placeholder, then line 223 dereferences the nil pointer: the process panics
  and no resource listing is requested.
\<close>

theorem nil_stack_id_panics:
  "outcomeOf (scanMain (mockAPI mockNilId) stubFormat Map.empty (world0 []))
     = Some (Panic nilDeref)
   \<and> map_option exitCode (outcomeOf (scanMain (mockAPI mockNilId) stubFormat Map.empty (world0 [])))
     = Some 2
   \<and> linesWith ''  - Id: '' (scanMain (mockAPI mockNilId) stubFormat Map.empty (world0 []))
     = Some [''  - Id: <nil>'']
   \<and> callsOf (scanMain (mockAPI mockNilId) stubFormat Map.empty (world0 []))
     = Some [CallLoadDefaultConfig,
             CallGetCallerIdentity \<lparr>Region = ''us-west-2''\<rparr>,
             CallDescribeRegions \<lparr>Region = ''us-west-2''\<rparr> False,
             CallListStacks \<lparr>Region = ''us-west-2''\<rparr> (listStacksInput None)]"
  by (simp_all add: observe_defs scan_defs mock_defs mockNilId_def)

text \<open>
  C6. \<open>NilSafeString\<close> and \<open>NilSafeTime\<close> give the placeholder \<open><nil>\<close> for a nil
  argument, whatever the layout, and \<open>NilSafeString\<close> gives a non-nil string back
  unchanged.
\<close>

theorem NilSafe_placeholder_and_identity:
  "NilSafeString None = ''<nil>''
   \<and> NilSafeTime Format None fmt = ''<nil>''
   \<and> NilSafeString (Some s) = s"
  by (simp add: NilSafeString_def NilSafeTime_def)

text \<open>
  C7, as stated, fails where the first container of the first task has a nil name: the
  function neither returns an error nor a name, it panics at line 57.
\<close>

theorem nil_container_name_counterexample:
  "fst (getTaskLogStreamName (logsMockAPI mockNoName) \<lparr>Region = ''us-west-2''\<rparr> ''prod''
          ''task-1'' (world0 []))
     = Panic nilDeref"
  by (simp add: logs_defs logsMock_defs mockNoName_def)

text \<open>
  C7, amended. When \<open>DescribeTasks\<close> answers, \<open>getTaskLogStreamName\<close> returns the
  error \<open>task not found\<close> exactly when the response holds no task, and the error
  \<open>no containers found in task\<close> exactly when the first task holds no container.
  Otherwise it returns the name of the first container of the first task when that name
  is present, and panics on the nil dereference when it is not.
\<close>

theorem getTaskLogStreamName_cases:
  assumes "DescribeTasks api ecsClient \<lparr>DTI_Cluster = Some cluster, DTI_Tasks = [taskID]\<rparr>
             (backend w) = (Inr resp, s)"
  shows "(fst (getTaskLogStreamName api ecsClient cluster taskID w)
            = Return (Inl (Error ''task not found''))
          \<longleftrightarrow> DTO_Tasks resp = [])
       \<and> (fst (getTaskLogStreamName api ecsClient cluster taskID w)
            = Return (Inl (Error ''no containers found in task''))
          \<longleftrightarrow> (\<exists>task tasks. DTO_Tasks resp = task # tasks \<and> Containers task = []))
       \<and> (\<forall>task tasks container containers.
             DTO_Tasks resp = task # tasks \<and> Containers task = container # containers
             \<longrightarrow> fst (getTaskLogStreamName api ecsClient cluster taskID w)
                   = (case Name container of
                        Some name \<Rightarrow> Return (Inr name)
                      | None \<Rightarrow> Panic nilDeref))"
  using assms
  by (auto simp: getTaskLogStreamName_def split: list.splits option.splits)

theorem getTaskLogStreamName_cases_witness:
  "fst (getTaskLogStreamName (logsMockAPI mockApp) \<lparr>Region = ''us-west-2''\<rparr> ''prod''
          ''task-1'' (world0 []))
     = Return (Inr ''app'')
   \<and> fst (getTaskLogStreamName (logsMockAPI (mockApp\<lparr>mockTasks := taskWith []\<rparr>))
            \<lparr>Region = ''us-west-2''\<rparr> ''prod'' ''task-1'' (world0 []))
     = Return (Inl (Error ''no containers found in task''))
   \<and> fst (getTaskLogStreamName (logsMockAPI (mockApp\<lparr>mockTasks := Inr \<lparr>DTO_Tasks = []\<rparr>\<rparr>))
            \<lparr>Region = ''us-west-2''\<rparr> ''prod'' ''task-1'' (world0 []))
     = Return (Inl (Error ''task not found''))"
proof -
  let ?cfg = "\<lparr>Region = ''us-west-2''\<rparr>"
  let ?input = "\<lparr>DTI_Cluster = Some ''prod'', DTI_Tasks = [''task-1'']\<rparr>"
  have a: "DescribeTasks (logsMockAPI mockApp) ?cfg ?input (backend (world0 []))
             = (Inr \<lparr>DTO_Tasks = [\<lparr>Containers = [\<lparr>Name = Some ''app''\<rparr>]\<rparr>]\<rparr>,
                [CallDescribeTasks ?cfg ?input])"
    by (simp add: logsMock_defs)
  have b: "DescribeTasks (logsMockAPI (mockApp\<lparr>mockTasks := taskWith []\<rparr>)) ?cfg ?input
             (backend (world0 []))
             = (Inr \<lparr>DTO_Tasks = [\<lparr>Containers = []\<rparr>]\<rparr>, [CallDescribeTasks ?cfg ?input])"
    by (simp add: logsMock_defs)
  have c: "DescribeTasks (logsMockAPI (mockApp\<lparr>mockTasks := Inr \<lparr>DTO_Tasks = []\<rparr>\<rparr>)) ?cfg ?input
             (backend (world0 []))
             = (Inr \<lparr>DTO_Tasks = []\<rparr>, [CallDescribeTasks ?cfg ?input])"
    by (simp add: logsMock_defs)
  show ?thesis
    using getTaskLogStreamName_cases [OF a] getTaskLogStreamName_cases [OF b]
      getTaskLogStreamName_cases [OF c]
    by simp
qed

text \<open>
  C8. When \<open>ECS_CLUSTER\<close> is unset, or it is set and \<open>ECS_TASK_ID\<close> is unset, or
  both are set and \<open>LOG_GROUP_NAME\<close> is unset, the process panics with the message
  naming that variable and the world is untouched: whatever the backend, no operation
  of it has been called and nothing has been written. With \<open>AWS_REGION\<close> unset the
  program runs exactly as with \<open>AWS_REGION=us-west-2\<close>.
\<close>

theorem required_environment_checked_first:
  "(env ''ECS_CLUSTER'' = None
      \<longrightarrow> logsMain api TimeString env w
            = Some (Panic ''ECS_CLUSTER environment variable is required'', w))
   \<and> (Getenv env ''ECS_CLUSTER'' \<noteq> [] \<and> env ''ECS_TASK_ID'' = None
      \<longrightarrow> logsMain api TimeString env w
            = Some (Panic ''ECS_TASK_ID environment variable is required'', w))
   \<and> (Getenv env ''ECS_CLUSTER'' \<noteq> [] \<and> Getenv env ''ECS_TASK_ID'' \<noteq> []
        \<and> env ''LOG_GROUP_NAME'' = None
      \<longrightarrow> logsMain api TimeString env w
            = Some (Panic ''LOG_GROUP_NAME environment variable is required'', w))
   \<and> (env ''AWS_REGION'' = None
      \<longrightarrow> logsMain api TimeString env w
            = logsMain api TimeString (env(''AWS_REGION'' \<mapsto> ''us-west-2'')) w)"
  by (simp add: logsMain_def Getenv_def)

theorem required_environment_checked_first_witness:
  "logsMain (logsMockAPI mockApp) stubTimeString (envAll(''ECS_CLUSTER'' := None)) (world0 [])
     = Some (Panic ''ECS_CLUSTER environment variable is required'', world0 [])
   \<and> logsMain (logsMockAPI mockApp) stubTimeString (envAll(''ECS_TASK_ID'' := None)) (world0 [])
     = Some (Panic ''ECS_TASK_ID environment variable is required'', world0 [])
   \<and> logsMain (logsMockAPI mockApp) stubTimeString (envAll(''LOG_GROUP_NAME'' := None))
         (world0 [])
     = Some (Panic ''LOG_GROUP_NAME environment variable is required'', world0 [])
   \<and> envAll ''AWS_REGION'' = None
   \<and> logsMain (logsMockAPI mockApp) stubTimeString envAll (world0 [])
     = logsMain (logsMockAPI mockApp) stubTimeString (envAll(''AWS_REGION'' \<mapsto> ''us-west-2''))
         (world0 [])
   \<and> outcomeOf (logsMain (logsMockAPI mockApp) stubTimeString envAll (world0 []))
     = Some (Return ())
   \<and> map_option (take 2) (callsOf (logsMain (logsMockAPI mockApp) stubTimeString envAll (world0 [])))
     = Some [CallLoadConfig ''us-west-2'', CallLoadConfig ''us-west-2'']"
proof -
  note t1 = required_environment_checked_first
      [where api = "logsMockAPI mockApp" and TimeString = stubTimeString
         and env = "envAll(''ECS_CLUSTER'' := None)" and w = "world0 []"]
  note t2 = required_environment_checked_first
      [where api = "logsMockAPI mockApp" and TimeString = stubTimeString
         and env = "envAll(''ECS_TASK_ID'' := None)" and w = "world0 []"]
  note t3 = required_environment_checked_first
      [where api = "logsMockAPI mockApp" and TimeString = stubTimeString
         and env = "envAll(''LOG_GROUP_NAME'' := None)" and w = "world0 []"]
  note t4 = required_environment_checked_first
      [where api = "logsMockAPI mockApp" and TimeString = stubTimeString
         and env = envAll and w = "world0 []"]
  have run: "outcomeOf (logsMain (logsMockAPI mockApp) stubTimeString envAll (world0 []))
               = Some (Return ())
             \<and> map_option (take 2)
                  (callsOf (logsMain (logsMockAPI mockApp) stubTimeString envAll (world0 [])))
               = Some [CallLoadConfig ''us-west-2'', CallLoadConfig ''us-west-2'']"
    by (simp add: observe_defs logs_defs logsMock_defs)
  from t1 t2 t3 t4 run show ?thesis
    by (simp add: envAll_def Getenv_def)
qed

text \<open>
  C9, as stated, fails for an event with a nil field. Of three events served, the
  second without a message, the line of the first is printed and then the process
  panics: there is not one line per event. And the window does not end at the current
  time as a millisecond epoch: with the clock at 1700000002500 milliseconds the
  request ends at 1700000002000.
\<close>

theorem nil_message_counterexample:
  "outcomeOf (getLogEvents (logsMockAPI mockNilMessage) stubTimeString \<lparr>Region = ''us-west-2''\<rparr>
                ''/ecs/app'' ''app'' (world0 []))
     = Some (Panic nilDeref)
   \<and> stdoutOf (getLogEvents (logsMockAPI mockNilMessage) stubTimeString
                 \<lparr>Region = ''us-west-2''\<rparr> ''/ecs/app'' ''app'' (world0 []))
     = Some (''2023-11-14 22:13:20 +0000 UTC'' @ [CHR 0x09] @ ''hello'' @ [CHR 0x0A])
   \<and> mockClock mockNilMessage div 1000000 = 1700000002500
   \<and> EndTime (getLogEventsInput (mockClock mockNilMessage) ''/ecs/app'' ''app'')
     = Some 1700000002000"
  by (simp add: observe_defs logs_defs logsMock_defs mockNilMessage_def)

text \<open>
  C9, amended. The request asks for the window that ends at the clock's reading in
  whole seconds, as milliseconds, and starts 3600000 milliseconds before it. When the
  paginator delivers the pages \<open>pages\<close> and then reports no more pages, and every
  event carries a timestamp and a message, \<open>getLogEvents\<close> returns nil and has
  appended to standard output one line per event, page after page and in each page in
  the order of its events: the rendering of the instant of the event's millisecond
  timestamp, a tab, the message and a newline. When instead the paginator has
  delivered pages of such events and its next page holds, after events \<open>good\<close> of
  that kind, an event that lacks its timestamp or its message, \<open>getLogEvents\<close>
  does not return: the process panics, having written the lines of the earlier pages
  and of \<open>good\<close> and nothing of the faulty event or of what follows it.
\<close>

theorem getLogEvents_prints_every_page:
  "(yields api
      (NewGetLogEventsPaginator api cwLogsClient
         (getLogEventsInput (Now api (backend w)) logGroupName logStreamName))
      (backend w) pages s'
    \<and> (\<forall>page \<in> set pages. \<forall>event \<in> set (Events page). hasFields event)
    \<longrightarrow> getLogEvents api TimeString cwLogsClient logGroupName logStreamName w
          = Some (Return None,
                  w\<lparr>backend := s',
                    stdout := stdout w
                      @ concat (map (eventLine TimeString) (concat (map Events pages)))\<rparr>))
   \<and> getLogEventsInput (Now api (backend w)) logGroupName logStreamName
     = \<lparr>LogGroupName = Some logGroupName, LogStreamName = Some logStreamName,
        StartTime = Some (Unix (Now api (backend w)) * 1000 - 3600000),
        EndTime = Some (Unix (Now api (backend w)) * 1000)\<rparr>
   \<and> (delivers api
        (NewGetLogEventsPaginator api cwLogsClient
           (getLogEventsInput (Now api (backend w)) logGroupName logStreamName))
        (backend w) pages q t
      \<and> (\<forall>page \<in> set pages. \<forall>event \<in> set (Events page). hasFields event)
      \<and> HasMorePages api q
      \<and> NextPage api q t = (Inr page, q', t')
      \<and> Events page = good @ bad # rest
      \<and> (\<forall>event \<in> set good. hasFields event)
      \<and> \<not> hasFields bad
    \<longrightarrow> getLogEvents api TimeString cwLogsClient logGroupName logStreamName w
          = Some (Panic nilDeref,
                  w\<lparr>backend := t',
                    stdout := stdout w
                      @ concat (map (eventLine TimeString)
                                  (concat (map Events pages) @ good))\<rparr>))"
proof (intro conjI impI)
  assume "yields api
      (NewGetLogEventsPaginator api cwLogsClient
         (getLogEventsInput (Now api (backend w)) logGroupName logStreamName))
      (backend w) pages s'
    \<and> (\<forall>page \<in> set pages. \<forall>event \<in> set (Events page). hasFields event)"
  then show "getLogEvents api TimeString cwLogsClient logGroupName logStreamName w
          = Some (Return None,
                  w\<lparr>backend := s',
                    stdout := stdout w
                      @ concat (map (eventLine TimeString) (concat (map Events pages)))\<rparr>)"
    using getLogEvents_loop_yields [of api _ "backend w" pages s' w TimeString]
    by (simp add: getLogEvents_def)
next
  show "getLogEventsInput (Now api (backend w)) logGroupName logStreamName
     = \<lparr>LogGroupName = Some logGroupName, LogStreamName = Some logStreamName,
        StartTime = Some (Unix (Now api (backend w)) * 1000 - 3600000),
        EndTime = Some (Unix (Now api (backend w)) * 1000)\<rparr>"
    by (rule getLogEventsInput_window)
next
  assume "delivers api
        (NewGetLogEventsPaginator api cwLogsClient
           (getLogEventsInput (Now api (backend w)) logGroupName logStreamName))
        (backend w) pages q t
      \<and> (\<forall>page \<in> set pages. \<forall>event \<in> set (Events page). hasFields event)
      \<and> HasMorePages api q
      \<and> NextPage api q t = (Inr page, q', t')
      \<and> Events page = good @ bad # rest
      \<and> (\<forall>event \<in> set good. hasFields event)
      \<and> \<not> hasFields bad"
  then show "getLogEvents api TimeString cwLogsClient logGroupName logStreamName w
          = Some (Panic nilDeref,
                  w\<lparr>backend := t',
                    stdout := stdout w
                      @ concat (map (eventLine TimeString)
                                  (concat (map Events pages) @ good))\<rparr>)"
    using getLogEvents_loop_panics
      [of api _ "backend w" pages q t w page q' t' good bad rest TimeString]
    by (simp add: getLogEvents_def)
qed

theorem getLogEvents_prints_every_page_witness:
  "getLogEvents (logsMockAPI mockApp) stubTimeString \<lparr>Region = ''us-west-2''\<rparr> ''/ecs/app''
     ''app'' (world0 [])
   = Some (Return None,
           \<lparr>backend =
              [CallGetLogEvents \<lparr>Region = ''us-west-2''\<rparr>
                 \<lparr>LogGroupName = Some ''/ecs/app'', LogStreamName = Some ''app'',
                    StartTime = Some 1699996402000, EndTime = Some 1700000002000\<rparr>,
               CallGetLogEvents \<lparr>Region = ''us-west-2''\<rparr>
                 \<lparr>LogGroupName = Some ''/ecs/app'', LogStreamName = Some ''app'',
                    StartTime = Some 1699996402000, EndTime = Some 1700000002000\<rparr>],
            logged = [],
            stdout =
              ''2023-11-14 22:13:20 +0000 UTC'' @ [CHR 0x09] @ ''hello'' @ [CHR 0x0A]
              @ ''2023-11-14 22:13:21 +0000 UTC'' @ [CHR 0x09] @ ''world'' @ [CHR 0x0A]\<rparr>)
   \<and> getLogEvents (logsMockAPI mockNilMessage) stubTimeString \<lparr>Region = ''us-west-2''\<rparr>
       ''/ecs/app'' ''app'' (world0 [])
   = Some (Panic nilDeref,
           \<lparr>backend =
              [CallGetLogEvents \<lparr>Region = ''us-west-2''\<rparr>
                 \<lparr>LogGroupName = Some ''/ecs/app'', LogStreamName = Some ''app'',
                    StartTime = Some 1699996402000, EndTime = Some 1700000002000\<rparr>],
            logged = [],
            stdout = ''2023-11-14 22:13:20 +0000 UTC'' @ [CHR 0x09] @ ''hello'' @ [CHR 0x0A]\<rparr>)"
proof -
  let ?w0 = "world0 ([] :: logsCall list)"
  let ?cfg = "\<lparr>Region = ''us-west-2''\<rparr>"
  let ?api = "logsMockAPI mockApp"
  let ?input = "getLogEventsInput (Now ?api (backend ?w0)) ''/ecs/app'' ''app''"
  let ?page1 = "\<lparr>Events = [\<lparr>Timestamp = Some 1700000000000, Message = Some ''hello''\<rparr>]\<rparr>"
  let ?page2 = "\<lparr>Events = [\<lparr>Timestamp = Some 1700000001000, Message = Some ''world''\<rparr>]\<rparr>"
  let ?call = "CallGetLogEvents ?cfg ?input"
  have start: "NewGetLogEventsPaginator ?api ?cfg ?input = (?cfg, ?input, [?page1, ?page2])"
    by (simp add: logsMockAPI_def mockApp_def)
  have none_left: "yields ?api (?cfg, ?input, []) [?call, ?call] [] [?call, ?call]"
    by (rule yields_done) (simp add: logsMockAPI_def)
  have second: "yields ?api (?cfg, ?input, [?page2]) [?call] [?page2] [?call, ?call]"
    by (rule yields_page [OF _ _ none_left]) (simp_all add: logsMockAPI_def)
  have first: "yields ?api (?cfg, ?input, [?page1, ?page2]) [] [?page1, ?page2] [?call, ?call]"
    by (rule yields_page [OF _ _ second]) (simp_all add: logsMockAPI_def)
  have served: "yields ?api (NewGetLogEventsPaginator ?api ?cfg ?input) (backend ?w0)
                  [?page1, ?page2] [?call, ?call]"
    using first by (simp add: start) (simp add: world0_def)
  have complete: "\<forall>page \<in> set [?page1, ?page2]. \<forall>event \<in> set (Events page). hasFields event"
    by (simp add: hasFields_def)
  have printed:
    "getLogEvents ?api stubTimeString ?cfg ''/ecs/app'' ''app'' ?w0
       = Some (Return None,
               ?w0
                 \<lparr>backend := [?call, ?call],
                   stdout := stdout ?w0
                     @ concat (map (eventLine stubTimeString)
                                 (concat (map Events [?page1, ?page2])))\<rparr>)"
    by (rule mp [OF conjunct1 [OF getLogEvents_prints_every_page
          [where api = ?api and cwLogsClient = ?cfg and w = ?w0
             and logGroupName = "''/ecs/app''" and logStreamName = "''app''"
             and pages = "[?page1, ?page2]" and s' = "[?call, ?call]"
             and TimeString = stubTimeString]]])
       (intro conjI served complete)
  let ?bapi = "logsMockAPI mockNilMessage"
  let ?binput = "getLogEventsInput (Now ?bapi (backend ?w0)) ''/ecs/app'' ''app''"
  let ?hello = "\<lparr>Timestamp = Some 1700000000000, Message = Some ''hello''\<rparr>"
  let ?bad = "\<lparr>Timestamp = Some 1700000001000, Message = None\<rparr>"
  let ?world = "\<lparr>Timestamp = Some 1700000001000, Message = Some ''world''\<rparr>"
  let ?page = "\<lparr>Events = [?hello, ?bad, ?world]\<rparr>"
  let ?bcall = "CallGetLogEvents ?cfg ?binput"
  let ?p0 = "NewGetLogEventsPaginator ?bapi ?cfg ?binput"
  have nothing: "delivers ?bapi ?p0 (backend ?w0) [] ?p0 (backend ?w0)"
    by (rule delivers_none)
  have more: "HasMorePages ?bapi ?p0"
    by (simp add: logsMockAPI_def mockNilMessage_def)
  have next_page: "NextPage ?bapi ?p0 (backend ?w0) = (Inr ?page, (?cfg, ?binput, []), [?bcall])"
    by (simp add: logsMockAPI_def mockNilMessage_def world0_def)
  have split: "Events ?page = [?hello] @ ?bad # [?world]"
    by simp
  have good: "\<forall>event \<in> set [?hello]. hasFields event"
    by (simp add: hasFields_def)
  have bad: "\<not> hasFields ?bad"
    by (simp add: hasFields_def)
  have empty: "\<forall>page \<in> set ([] :: GetLogEventsOutput list). \<forall>event \<in> set (Events page). hasFields event"
    by simp
  have panicked:
    "getLogEvents ?bapi stubTimeString ?cfg ''/ecs/app'' ''app'' ?w0
       = Some (Panic nilDeref,
               ?w0
                 \<lparr>backend := [?bcall],
                   stdout := stdout ?w0
                     @ concat (map (eventLine stubTimeString)
                                 (concat (map Events ([] :: GetLogEventsOutput list)) @ [?hello]))\<rparr>)"
    by (rule mp [OF conjunct2 [OF conjunct2 [OF getLogEvents_prints_every_page
          [where api = ?bapi and cwLogsClient = ?cfg and w = ?w0
             and logGroupName = "''/ecs/app''" and logStreamName = "''app''"
             and pages = "[]" and q = ?p0 and t = "backend ?w0"
             and page = ?page and q' = "(?cfg, ?binput, [])" and t' = "[?bcall]"
             and good = "[?hello]" and bad = ?bad and rest = "[?world]"
             and TimeString = stubTimeString]]]])
       (rule conjI, rule nothing, rule conjI, rule empty, rule conjI, rule more, rule conjI, rule next_page, rule conjI, rule split, rule conjI, rule good, rule bad)
  from printed panicked show ?thesis
    by (simp add: world0_def eventLine_def stubTimeString_def UnixMilli_def Unix_def
          getLogEventsInput_window logsMockAPI_def mockApp_def mockNilMessage_def)
qed

text \<open>
  C10. For a non-nil instant, \<open>NilSafeTime\<close> with the empty layout renders it in the
  RFC3339 layout, and with a non-empty layout renders it in that layout.
\<close>

theorem NilSafeTime_layout:
  "NilSafeTime Format (Some t) [] = Format t RFC3339
   \<and> (f \<noteq> [] \<longrightarrow> NilSafeTime Format (Some t) f = Format t f)"
  by (simp add: NilSafeTime_def)

theorem NilSafeTime_layout_witness:
  "''2006-01-02'' \<noteq> []
   \<and> NilSafeTime stubFormat (Some 0) [] = ''epoch as 2006-01-02T15:04:05Z07:00''
   \<and> NilSafeTime stubFormat (Some 0) ''2006-01-02'' = ''epoch as 2006-01-02''"
  using NilSafeTime_layout [of stubFormat 0 "''2006-01-02''"]
  by (simp add: stubFormat_def RFC3339_def)

end
